theory Spec2Isabelle
  imports Complex_Main
begin

section \<open>Numbers\<close>

text \<open>
  The TypeScript type \<open>number\<close> is modelled by the real numbers: rounding is not
  modelled, and there is a single zero. The non-finite results that the program can
  produce (a division by zero, an undefined array element read as a number) are kept
  apart in \<open>jsnum\<close>, so that a division is never silently given HOL's value for
  \<open>x / 0\<close>.
\<close>

datatype jsnum = Fin real | PInf | NInf | NaN

text \<open>The operator \<open>/\<close> on two finite numbers.\<close>

definition js_div :: "real \<Rightarrow> real \<Rightarrow> jsnum" where
  "js_div a b =
     (if b \<noteq> 0 then Fin (a / b)
      else if a > 0 then PInf
      else if a < 0 then NInf
      else NaN)"

text \<open>\<open>Math.min(a, q)\<close> and \<open>Math.max(a, q)\<close> for a finite \<open>a\<close>.\<close>

fun js_min :: "real \<Rightarrow> jsnum \<Rightarrow> jsnum" where
  "js_min a (Fin b) = Fin (min a b)"
| "js_min a PInf = Fin a"
| "js_min a NInf = NInf"
| "js_min a NaN = NaN"

fun js_max :: "real \<Rightarrow> jsnum \<Rightarrow> jsnum" where
  "js_max a (Fin b) = Fin (max a b)"
| "js_max a PInf = PInf"
| "js_max a NInf = Fin a"
| "js_max a NaN = NaN"

text \<open>The comparison \<open>q >= a\<close> of the program; every comparison with NaN is false.\<close>

fun js_ge :: "jsnum \<Rightarrow> real \<Rightarrow> bool" where
  "js_ge (Fin b) a = (b \<ge> a)"
| "js_ge PInf a = True"
| "js_ge NInf a = False"
| "js_ge NaN a = False"

text \<open>
  What a run of the program can do that a value of the model cannot hold: loop without
  end, or carry on with a non-finite number in an agent's state.
\<close>

datatype failure = Diverges | NonFinite

text \<open>Reading \<open>xs[i]\<close>: \<open>undefined\<close> (here \<open>None\<close>) out of range.\<close>

definition nth_opt :: "'a list \<Rightarrow> nat \<Rightarrow> 'a option" where
  "nth_opt xs i = (if i < length xs then Some (xs ! i) else None)"

section \<open>Vectors (utils/vector.ts)\<close>

record Vec2 =
  vecx :: real
  vecy :: real

definition vec2_create :: "real \<Rightarrow> real \<Rightarrow> Vec2" where
  "vec2_create a b = \<lparr>vecx = a, vecy = b\<rparr>"

definition vec2_add :: "Vec2 \<Rightarrow> Vec2 \<Rightarrow> Vec2" where
  "vec2_add a b = \<lparr>vecx = vecx a + vecx b, vecy = vecy a + vecy b\<rparr>"

definition vec2_sub :: "Vec2 \<Rightarrow> Vec2 \<Rightarrow> Vec2" where
  "vec2_sub a b = \<lparr>vecx = vecx a - vecx b, vecy = vecy a - vecy b\<rparr>"

definition vec2_scale :: "Vec2 \<Rightarrow> real \<Rightarrow> Vec2" where
  "vec2_scale v s = \<lparr>vecx = vecx v * s, vecy = vecy v * s\<rparr>"

definition vec2_dot :: "Vec2 \<Rightarrow> Vec2 \<Rightarrow> real" where
  "vec2_dot a b = vecx a * vecx b + vecy a * vecy b"

definition vec2_length :: "Vec2 \<Rightarrow> real" where
  "vec2_length v = sqrt (vecx v * vecx v + vecy v * vecy v)"

definition vec2_lengthSquared :: "Vec2 \<Rightarrow> real" where
  "vec2_lengthSquared v = vecx v * vecx v + vecy v * vecy v"

definition vec2_distance :: "Vec2 \<Rightarrow> Vec2 \<Rightarrow> real" where
  "vec2_distance a b = vec2_length (vec2_sub a b)"

definition vec2_zero :: Vec2 where
  "vec2_zero = \<lparr>vecx = 0, vecy = 0\<rparr>"

definition eps10 :: real where
  "eps10 = 1 / 10 ^ 10"

definition vec2_normalize :: "Vec2 \<Rightarrow> Vec2" where
  "vec2_normalize v =
     (let len = vec2_length v
      in if len > eps10 then vec2_scale v (1 / len) else \<lparr>vecx = 0, vecy = 0\<rparr>)"

text \<open>
  \<open>Math.atan2(y, x)\<close> on the reals (the results that depend on the sign of a zero
  are those of the positive zero).
\<close>

definition atan2 :: "real \<Rightarrow> real \<Rightarrow> real" where
  "atan2 b a =
     (if a > 0 then arctan (b / a)
      else if a < 0 then (if b \<ge> 0 then arctan (b / a) + pi else arctan (b / a) - pi)
      else if b > 0 then pi / 2
      else if b < 0 then - (pi / 2)
      else 0)"

definition vec2_angle :: "Vec2 \<Rightarrow> real" where
  "vec2_angle v = atan2 (vecy v) (vecx v)"

definition vec2_fromAngle :: "real \<Rightarrow> real \<Rightarrow> Vec2" where
  "vec2_fromAngle angle magnitude =
     \<lparr>vecx = cos angle * magnitude, vecy = sin angle * magnitude\<rparr>"

definition vec2_perpendicular :: "Vec2 \<Rightarrow> Vec2" where
  "vec2_perpendicular v = \<lparr>vecx = - vecy v, vecy = vecx v\<rparr>"

section \<open>Entities (simulation/types.ts)\<close>

record Pedestrian =
  pid :: int
  position :: Vec2
  velocity :: Vec2
  mass :: real
  radius :: real
  desiredSpeed :: real
  destination :: Vec2
  direction :: real
  active :: bool

record Wall =
  wstart :: Vec2
  wend :: Vec2
  wa :: real
  wb :: real
  wc :: real
  normal :: Vec2

datatype BoundaryType = BClosed | BPeriodic | BOpen

record Bounds =
  xMin :: real
  xMax :: real
  yMin :: real
  yMax :: real

record Environment =
  walls :: "Wall list"
  boundaryType :: BoundaryType
  bounds :: Bounds

record SimulationParams =
  tau :: real
  phi :: real
  dMax :: real
  kContact :: real
  dt :: real
  angularResolution :: real

definition defaultParams :: SimulationParams where
  "defaultParams =
     \<lparr>tau = 0.5, phi = (75 * pi) / 180, dMax = 10, kContact = 5000, dt = 0.02,
      angularResolution = (1 * pi) / 180\<rparr>"

record VisionResult =
  angles :: "real list"
  distances :: "real list"

text \<open>A field is \<open>None\<close> when the program leaves it \<open>undefined\<close>.\<close>

record DirectionResult =
  alphaDes :: "real option"
  distanceToObstacle :: "real option"

section \<open>Heuristics (simulation/heuristics.ts)\<close>

definition directionCost :: "SimulationParams \<Rightarrow> real \<Rightarrow> real \<Rightarrow> real" where
  "directionCost p alpha f =
     dMax p * dMax p + f * f - 2 * dMax p * f * cos (0 - alpha)"

text \<open>
  One pass of the loop of \<open>selectDirection\<close>. The state is \<open>(minCost, bestIdx)\<close>,
  with \<open>None\<close> for the initial \<open>Infinity\<close>. Where \<open>distances[i]\<close> is undefined the
  cost is NaN and the comparison fails.
\<close>

definition selectDirection_step ::
  "real list \<Rightarrow> real list \<Rightarrow> SimulationParams \<Rightarrow> real option \<times> nat \<Rightarrow> nat \<Rightarrow> real option \<times> nat" where
  "selectDirection_step angs dists p st i =
     (if i < length dists then
        (let cost = directionCost p (angs ! i) (dists ! i)
         in if (case fst st of None \<Rightarrow> True | Some minCost \<Rightarrow> cost < minCost)
            then (Some cost, i) else st)
      else st)"

definition selectDirection :: "real list \<Rightarrow> real list \<Rightarrow> SimulationParams \<Rightarrow> DirectionResult" where
  "selectDirection angs dists p =
     (let bestIdx = snd (foldl (selectDirection_step angs dists p) (None, 0) [0..<length angs])
      in \<lparr>alphaDes = nth_opt angs bestIdx, distanceToObstacle = nth_opt dists bestIdx\<rparr>)"

definition selectSpeed :: "real \<Rightarrow> real \<Rightarrow> real \<Rightarrow> jsnum" where
  "selectSpeed desSpeed distToObstacle t = js_min desSpeed (js_div distToObstacle t)"

definition computeDesiredVelocity ::
  "real \<Rightarrow> real list \<Rightarrow> real list \<Rightarrow> SimulationParams \<Rightarrow> real option \<times> jsnum" where
  "computeDesiredVelocity desSpeed angs dists p =
     (let r = selectDirection angs dists p
      in (alphaDes r,
          case distanceToObstacle r of
            None \<Rightarrow> NaN
          | Some d \<Rightarrow> selectSpeed desSpeed d (tau p)))"

section \<open>Geometry (utils/geometry.ts)\<close>

record LineEquation =
  la :: real
  lb :: real
  lc :: real

definition lineFromPoints :: "Vec2 \<Rightarrow> Vec2 \<Rightarrow> LineEquation" where
  "lineFromPoints p1 p2 =
     (let dx = vecx p2 - vecx p1;
          dy = vecy p2 - vecy p1;
          a = - dy;
          b = dx;
          c = - (a * vecx p1 + b * vecy p1);
          len = sqrt (a * a + b * b)
      in if len < eps10 then \<lparr>la = 0, lb = 0, lc = 0\<rparr>
         else \<lparr>la = a / len, lb = b / len, lc = c / len\<rparr>)"

definition closestPointOnSegment :: "Vec2 \<Rightarrow> Vec2 \<Rightarrow> Vec2 \<Rightarrow> Vec2" where
  "closestPointOnSegment point segStart segEnd =
     (let seg = vec2_sub segEnd segStart;
          segLenSq = vec2_lengthSquared seg
      in if segLenSq < eps10 then segStart
         else (let toPoint = vec2_sub point segStart;
                   t = vec2_dot toPoint seg / segLenSq;
                   t' = max 0 (min 1 t)
               in vec2_add segStart (vec2_scale seg t')))"

definition distanceToSegment :: "Vec2 \<Rightarrow> Vec2 \<Rightarrow> Vec2 \<Rightarrow> real" where
  "distanceToSegment point segStart segEnd =
     vec2_distance point (closestPointOnSegment point segStart segEnd)"

definition normalFromSegmentToPoint :: "Vec2 \<Rightarrow> Vec2 \<Rightarrow> Vec2 \<Rightarrow> Vec2" where
  "normalFromSegmentToPoint point segStart segEnd =
     (let closest = closestPointOnSegment point segStart segEnd;
          toPoint = vec2_sub point closest;
          len = vec2_length toPoint
      in if len < eps10 then vec2_normalize (vec2_perpendicular (vec2_sub segEnd segStart))
         else vec2_scale toPoint (1 / len))"

text \<open>
  The two loops of \<open>wrapValue\<close>. They are entered only after the early return for
  \<open>range <= 0\<close>, so the bound on \<open>range\<close> is part of their guard here.
\<close>

function wrapValue_up :: "real \<Rightarrow> real \<Rightarrow> real \<Rightarrow> real" where
  "wrapValue_up result mn rng =
     (if 0 < rng \<and> result < mn then wrapValue_up (result + rng) mn rng else result)"
  by pat_completeness auto
termination
proof (relation "measure (\<lambda>(result, mn, rng). nat \<lceil>(mn - result) / rng\<rceil>)")
  show "wf (measure (\<lambda>(result, mn, rng). nat \<lceil>(mn - result) / rng\<rceil>))"
    by simp
next
  fix result mn rng :: real
  assume a: "0 < rng \<and> result < mn"
  then have pos: "0 < (mn - result) / rng" by simp
  have eq: "(mn - (result + rng)) / rng = (mn - result) / rng - 1"
    using a by (simp add: field_simps)
  have "\<lceil>(mn - result) / rng - 1\<rceil> = \<lceil>(mn - result) / rng\<rceil> - 1"
    by simp
  moreover have "0 < \<lceil>(mn - result) / rng\<rceil>" using pos by simp
  ultimately show "((result + rng, mn, rng), (result, mn, rng))
      \<in> measure (\<lambda>(result, mn, rng). nat \<lceil>(mn - result) / rng\<rceil>)"
    using eq by simp
qed

function wrapValue_down :: "real \<Rightarrow> real \<Rightarrow> real \<Rightarrow> real" where
  "wrapValue_down result mx rng =
     (if 0 < rng \<and> result \<ge> mx then wrapValue_down (result - rng) mx rng else result)"
  by pat_completeness auto
termination
proof (relation "measure (\<lambda>(result, mx, rng). nat (\<lfloor>(result - mx) / rng\<rfloor> + 1))")
  show "wf (measure (\<lambda>(result, mx, rng). nat (\<lfloor>(result - mx) / rng\<rfloor> + 1)))"
    by simp
next
  fix result mx rng :: real
  assume a: "0 < rng \<and> mx \<le> result"
  then have nonneg: "0 \<le> (result - mx) / rng" by simp
  have eq: "(result - rng - mx) / rng = (result - mx) / rng - 1"
    using a by (simp add: field_simps)
  have "\<lfloor>(result - mx) / rng - 1\<rfloor> = \<lfloor>(result - mx) / rng\<rfloor> - 1"
    by simp
  moreover have "0 \<le> \<lfloor>(result - mx) / rng\<rfloor>" using nonneg by simp
  ultimately show "((result - rng, mx, rng), (result, mx, rng))
      \<in> measure (\<lambda>(result, mx, rng). nat (\<lfloor>(result - mx) / rng\<rfloor> + 1))"
    using eq by simp
qed

declare wrapValue_up.simps [simp del]
declare wrapValue_down.simps [simp del]

definition wrapValue :: "real \<Rightarrow> real \<Rightarrow> real \<Rightarrow> real" where
  "wrapValue v mn mx =
     (let rng = mx - mn
      in if rng \<le> 0 then v
         else wrapValue_down (wrapValue_up v mn rng) mx rng)"

definition wrapPosition :: "Vec2 \<Rightarrow> Bounds \<Rightarrow> Vec2" where
  "wrapPosition pos b =
     \<lparr>vecx = wrapValue (vecx pos) (xMin b) (xMax b),
      vecy = wrapValue (vecy pos) (yMin b) (yMax b)\<rparr>"

definition periodicDisplacement :: "Vec2 \<Rightarrow> Vec2 \<Rightarrow> Bounds \<Rightarrow> Vec2" where
  "periodicDisplacement fromP toP b =
     (let rangeX = xMax b - xMin b;
          rangeY = yMax b - yMin b;
          dx = vecx toP - vecx fromP;
          dy = vecy toP - vecy fromP;
          dx' = (if dx > rangeX / 2 then dx - rangeX
                 else if dx < - rangeX / 2 then dx + rangeX else dx);
          dy' = (if dy > rangeY / 2 then dy - rangeY
                 else if dy < - rangeY / 2 then dy + rangeY else dy)
      in \<lparr>vecx = dx', vecy = dy'\<rparr>)"

subsection \<open>Random numbers\<close>

text \<open>
  \<open>Math.random()\<close> is the next element of a sequence of draws supplied from outside;
  the generator state also holds the module-level counter \<open>nextId\<close> of
  simulation/pedestrian.ts.
\<close>

record GenState =
  nextId :: int
  randomSource :: "nat \<Rightarrow> real"
  randomPos :: nat

definition random :: "GenState \<Rightarrow> real \<times> GenState" where
  "random st = (randomSource st (randomPos st), st\<lparr>randomPos := randomPos st + 1\<rparr>)"

text \<open>
  The Box-Muller formula of \<open>randomNormal\<close> on the two draws. For \<open>u1 = 0\<close> the
  logarithm is \<open>-Infinity\<close> and the result is infinite, or NaN when multiplied by zero;
  outside \<open>[0, 1]\<close> the logarithm or the square root is NaN.
\<close>

definition boxMuller :: "real \<Rightarrow> real \<Rightarrow> real \<Rightarrow> real \<Rightarrow> jsnum" where
  "boxMuller mean std u1 u2 =
     (if 0 < u1 \<and> u1 \<le> 1 then Fin (mean + std * (sqrt (- 2 * ln u1) * cos (2 * pi * u2)))
      else if u1 = 0 then
        (let s = std * cos (2 * pi * u2)
         in if s > 0 then PInf else if s < 0 then NInf else NaN)
      else NaN)"

definition randomNormal :: "real \<Rightarrow> real \<Rightarrow> GenState \<Rightarrow> jsnum \<times> GenState" where
  "randomNormal mean std st =
     (let (u1, st1) = random st;
          (u2, st2) = random st1
      in (boxMuller mean std u1 u2, st2))"

section \<open>Environment (simulation/environment.ts)\<close>

definition createWall :: "Vec2 \<Rightarrow> Vec2 \<Rightarrow> Wall" where
  "createWall s e =
     (let line = lineFromPoints s e;
          nrm = \<lparr>vecx = la line, vecy = lb line\<rparr>
      in \<lparr>wstart = s, wend = e, wa = la line, wb = lb line, wc = lc line, normal = nrm\<rparr>)"

definition createEnvironment :: "Wall list \<Rightarrow> Bounds \<Rightarrow> BoundaryType \<Rightarrow> Environment" where
  "createEnvironment ws b bt = \<lparr>walls = ws, boundaryType = bt, bounds = b\<rparr>"

section \<open>Vision (simulation/vision.ts)\<close>

definition eps6 :: real where
  "eps6 = 1 / 10 ^ 6"

definition collisionDistancePedestrian :: "Pedestrian \<Rightarrow> Pedestrian \<Rightarrow> Vec2 \<Rightarrow> real \<Rightarrow> real" where
  "collisionDistancePedestrian pedI pedJ vCandidate dmax =
     (let dx = vecx (position pedJ) - vecx (position pedI);
          dy = vecy (position pedJ) - vecy (position pedI);
          dvx = vecx (velocity pedJ) - vecx vCandidate;
          dvy = vecy (velocity pedJ) - vecy vCandidate;
          currentDistSq = dx * dx + dy * dy;
          combinedRadius = radius pedI + radius pedJ
      in if currentDistSq \<le> combinedRadius * combinedRadius then
           (let toOther = vec2_normalize \<lparr>vecx = dx, vecy = dy\<rparr>;
                candidateDir = vec2_normalize vCandidate;
                dot = vec2_dot candidateDir toOther
            in if dot > 0 then 0 else dmax)
         else
           (let A = dvx * dvx + dvy * dvy;
                B = 2 * (dvx * dx + dvy * dy);
                C = dx * dx + dy * dy - combinedRadius * combinedRadius
            in if A < eps10 then (if C \<le> 0 then 0 else dmax)
               else
                 (let discriminant = B * B - 4 * A * C
                  in if discriminant < 0 then dmax
                     else
                       (let sqrtDisc = sqrt discriminant;
                            t1 = (- B - sqrtDisc) / (2 * A);
                            t2 = (- B + sqrtDisc) / (2 * A);
                            tCollision = (if t1 > eps6 then Some t1
                                          else if t2 > eps6 then Some t2
                                          else None)
                        in case tCollision of
                             None \<Rightarrow> dmax
                           | Some t \<Rightarrow> min (vec2_length vCandidate * t) dmax))))"

definition collisionDistanceWall :: "Pedestrian \<Rightarrow> Wall \<Rightarrow> Vec2 \<Rightarrow> real \<Rightarrow> real" where
  "collisionDistanceWall ped wall vCandidate dmax =
     (let speed = vec2_length vCandidate
      in if speed < eps10 then dmax
         else
           (let vDir = vec2_normalize vCandidate;
                segDir = vec2_sub (wend wall) (wstart wall);
                segLen = vec2_length segDir
            in if segLen < eps10 then dmax
               else
                 (let toStart = vec2_sub (wstart wall) (position ped);
                      cross = vecx vDir * vecy segDir - vecy vDir * vecx segDir
                  in if \<bar>cross\<bar> < eps10 then
                       (if distanceToSegment (position ped) (wstart wall) (wend wall) \<le> radius ped
                           \<and> (wa wall * vecx (position ped) + wb wall * vecy (position ped) + wc wall)
                               * (wa wall * vecx vCandidate + wb wall * vecy vCandidate) < 0
                        then 0 else dmax)
                     else
                       (let t = (vecx toStart * vecy segDir - vecy toStart * vecx segDir) / cross;
                            s = (vecx toStart * vecy vDir - vecy toStart * vecx vDir) / cross
                        in if t < 0 \<or> s < 0 \<or> s > segLen then
                             (if vec2_distance (position ped) (wstart wall) \<le> radius ped
                                 \<or> vec2_distance (position ped) (wend wall) \<le> radius ped
                              then 0 else dmax)
                           else min (max 0 (t * speed - radius ped)) dmax))))"

text \<open>
  The number of passes of the sampling loop, \<open>Math.ceil((2 * phi) / angularResolution) + 1\<close>:
  \<open>None\<close> when the quotient is \<open>Infinity\<close> and the loop has no end; no pass when the
  quotient is \<open>-Infinity\<close> or NaN, or the sum is not positive.
\<close>

definition numSteps :: "SimulationParams \<Rightarrow> nat option" where
  "numSteps p =
     (case js_div (2 * phi p) (angularResolution p) of
        Fin q \<Rightarrow> Some (nat (\<lceil>q\<rceil> + 1))
      | PInf \<Rightarrow> None
      | NInf \<Rightarrow> Some 0
      | NaN \<Rightarrow> Some 0)"

definition sampleAngle :: "SimulationParams \<Rightarrow> nat \<Rightarrow> real" where
  "sampleAngle p i = - phi p + real i * angularResolution p"

text \<open>The loop over the other pedestrians, for one candidate velocity.\<close>

definition visionOther ::
  "Pedestrian \<Rightarrow> SimulationParams \<Rightarrow> Bounds option \<Rightarrow> bool \<Rightarrow> Vec2 \<Rightarrow> real \<Rightarrow> Pedestrian \<Rightarrow> real" where
  "visionOther ped p bnds periodic vCandidate minDist other =
     (if pid other = pid ped \<or> \<not> active other then minDist
      else
        (let otherPos =
               (case (periodic, bnds) of
                  (True, Some b) \<Rightarrow>
                    vec2_add (position ped) (periodicDisplacement (position ped) (position other) b)
                | _ \<Rightarrow> position other);
             otherAdjusted = other\<lparr>position := otherPos\<rparr>
         in min minDist (collisionDistancePedestrian ped otherAdjusted vCandidate (dMax p))))"

definition visionWall :: "Pedestrian \<Rightarrow> SimulationParams \<Rightarrow> Vec2 \<Rightarrow> real \<Rightarrow> Wall \<Rightarrow> real" where
  "visionWall ped p vCandidate minDist wall =
     min minDist (collisionDistanceWall ped wall vCandidate (dMax p))"

text \<open>The body of the sampling loop: the distance pushed for the angle \<open>alpha\<close>.\<close>

definition visionDistance ::
  "Pedestrian \<Rightarrow> Pedestrian list \<Rightarrow> Wall list \<Rightarrow> SimulationParams \<Rightarrow> Bounds option \<Rightarrow> bool
     \<Rightarrow> real \<Rightarrow> real \<Rightarrow> real" where
  "visionDistance ped others ws p bnds periodic actualHeading alpha =
     (let absDirection = actualHeading + alpha;
          vCandidate = vec2_fromAngle absDirection (desiredSpeed ped);
          minDist1 = foldl (visionOther ped p bnds periodic vCandidate) (dMax p) others
      in foldl (visionWall ped p vCandidate) minDist1 ws)"

definition computeVision ::
  "Pedestrian \<Rightarrow> Pedestrian list \<Rightarrow> Wall list \<Rightarrow> SimulationParams \<Rightarrow> Bounds option \<Rightarrow> bool
     \<Rightarrow> real option \<Rightarrow> failure + VisionResult" where
  "computeVision ped others ws p bnds periodic heading =
     (let actualHeading =
            (case heading of
               Some h \<Rightarrow> h
             | None \<Rightarrow> vec2_angle (vec2_sub (destination ped) (position ped)))
      in case numSteps p of
           None \<Rightarrow> Inl Diverges
         | Some n \<Rightarrow>
             Inr \<lparr>angles = map (sampleAngle p) [0..<n],
                  distances = map (\<lambda>i. visionDistance ped others ws p bnds periodic actualHeading
                                         (sampleAngle p i)) [0..<n]\<rparr>)"

section \<open>Contact forces (simulation/physics.ts)\<close>

text \<open>One pass of the inner loop over \<open>j\<close>: the contact of the pair \<open>(i, j)\<close>.\<close>

definition contactPair ::
  "Pedestrian list \<Rightarrow> SimulationParams \<Rightarrow> Bounds option \<Rightarrow> bool \<Rightarrow> nat \<Rightarrow> Vec2 list \<Rightarrow> nat \<Rightarrow> Vec2 list" where
  "contactPair peds p bnds periodic i forces j =
     (let pedI = peds ! i; pedJ = peds ! j
      in if \<not> active pedJ then forces
         else
           (let delta =
                  (case (periodic, bnds) of
                     (True, Some b) \<Rightarrow> periodicDisplacement (position pedJ) (position pedI) b
                   | _ \<Rightarrow> vec2_sub (position pedI) (position pedJ));
                dst = vec2_length delta;
                overlap = radius pedI + radius pedJ - dst
            in if overlap > 0 then
                 (let nrm = (if dst > eps10 then vec2_scale delta (1 / dst)
                             else \<lparr>vecx = 1, vecy = 0\<rparr>);
                      forceMag = kContact p * overlap;
                      force = vec2_scale nrm forceMag;
                      forces1 = forces[i := vec2_add (forces ! i) force]
                  in forces1[j := vec2_sub (forces1 ! j) force])
               else forces))"

text \<open>
  The loop over the walls, for the pedestrian at index \<open>i\<close>: the overlap with a
  wall, the force it adds when the overlap is positive, and one pass of the loop.
\<close>

definition wallOverlap :: "Pedestrian \<Rightarrow> Wall \<Rightarrow> real" where
  "wallOverlap pedI wall =
     radius pedI - distanceToSegment (position pedI) (wstart wall) (wend wall)"

definition wallPush :: "SimulationParams \<Rightarrow> Pedestrian \<Rightarrow> Wall \<Rightarrow> Vec2" where
  "wallPush p pedI wall =
     (let nrm = normalFromSegmentToPoint (position pedI) (wstart wall) (wend wall);
          forceMag = kContact p * wallOverlap pedI wall
      in vec2_scale nrm forceMag)"

definition contactWall ::
  "Pedestrian list \<Rightarrow> SimulationParams \<Rightarrow> nat \<Rightarrow> Vec2 list \<Rightarrow> Wall \<Rightarrow> Vec2 list" where
  "contactWall peds p i forces wall =
     (let pedI = peds ! i
      in if wallOverlap pedI wall > 0
         then forces[i := vec2_add (forces ! i) (wallPush p pedI wall)]
         else forces)"

text \<open>One pass of the outer loop over \<open>i\<close>.\<close>

definition contactOuter ::
  "Pedestrian list \<Rightarrow> Wall list \<Rightarrow> SimulationParams \<Rightarrow> Bounds option \<Rightarrow> bool \<Rightarrow> Vec2 list \<Rightarrow> nat \<Rightarrow> Vec2 list" where
  "contactOuter peds ws p bnds periodic forces i =
     (if \<not> active (peds ! i) then forces
      else
        (let forces1 = foldl (contactPair peds p bnds periodic i) forces [i + 1..<length peds]
         in foldl (contactWall peds p i) forces1 ws))"

definition computeContactForces ::
  "Pedestrian list \<Rightarrow> Wall list \<Rightarrow> SimulationParams \<Rightarrow> Bounds option \<Rightarrow> bool \<Rightarrow> Vec2 list" where
  "computeContactForces peds ws p bnds periodic =
     foldl (contactOuter peds ws p bnds periodic) (map (\<lambda>_. vec2_zero) peds) [0..<length peds]"

text \<open>
  The sum of a force array; the force of one wall on one pedestrian (zero without
  overlap), and of all walls on one pedestrian (zero when inactive).
\<close>

definition vec2_sum :: "Vec2 list \<Rightarrow> Vec2" where
  "vec2_sum vs = foldr vec2_add vs vec2_zero"

definition wallForce :: "SimulationParams \<Rightarrow> Pedestrian \<Rightarrow> Wall \<Rightarrow> Vec2" where
  "wallForce p ped wall = (if wallOverlap ped wall > 0 then wallPush p ped wall else vec2_zero)"

definition wallForcesOn :: "Wall list \<Rightarrow> SimulationParams \<Rightarrow> Pedestrian \<Rightarrow> Vec2" where
  "wallForcesOn ws p ped =
     (if active ped then vec2_sum (map (wallForce p ped) ws) else vec2_zero)"

section \<open>Pedestrian creation (simulation/pedestrian.ts)\<close>

record PedestrianOptions =
  optPosition :: Vec2
  optDestination :: Vec2
  optMass :: "real option"
  optDesiredSpeed :: "real option"
  optVelocity :: "Vec2 option"
  optDirection :: "real option"

text \<open>
  \<open>createPedestrian\<close> draws a mass and a desired speed only where the option is
  absent, then takes the next identity. A desired speed that is not finite has no
  value in \<open>Pedestrian\<close>: the model stops with \<open>NonFinite\<close>.
\<close>

definition createPedestrian :: "PedestrianOptions \<Rightarrow> GenState \<Rightarrow> failure + Pedestrian \<times> GenState" where
  "createPedestrian options st =
     (let (m, st1) =
            (case optMass options of
               Some m \<Rightarrow> (m, st)
             | None \<Rightarrow> (let (u, s) = random st in (60 + u * 40, s)));
          r = m / 320;
          (speed, st2) =
            (case optDesiredSpeed options of
               Some v \<Rightarrow> (Fin v, st1)
             | None \<Rightarrow> (let (z, s) = randomNormal 1.3 0.2 st1 in (js_max 0.5 z, s)))
      in case speed of
           Fin v \<Rightarrow>
             Inr (\<lparr>pid = nextId st2,
                   position = optPosition options,
                   velocity = (case optVelocity options of Some w \<Rightarrow> w | None \<Rightarrow> vec2_zero),
                   mass = m,
                   radius = r,
                   desiredSpeed = v,
                   destination = optDestination options,
                   direction = (case optDirection options of Some d \<Rightarrow> d | None \<Rightarrow> 1),
                   active = True\<rparr>,
                  st2\<lparr>nextId := nextId st2 + 1\<rparr>)
         | _ \<Rightarrow> Inl NonFinite)"

record AreaOptions =
  desiredSpeedMean :: "real option"
  desiredSpeedStd :: "real option"
  uniformMass :: "real option"
  directionFn :: "(nat \<Rightarrow> real) option"

definition overlapsPlaced :: "Vec2 \<Rightarrow> real \<Rightarrow> Pedestrian list \<Rightarrow> bool" where
  "overlapsPlaced pos r peds =
     list_ex (\<lambda>other. vec2_distance pos (position other) < r + radius other + 0.05) peds"

text \<open>
  The body of the \<open>while\<close> loop of \<open>createPedestriansInArea\<close> after
  \<open>attempts++\<close>: the list of pedestrians and the generator after one attempt.
  The callbacks \<open>destinationFn\<close> and \<open>directionFn\<close> are functions of their
  arguments (they draw no random number), and \<open>count\<close> is a natural number, as in
  the scenarios that call the function.
\<close>

definition placeAttempt ::
  "Bounds \<Rightarrow> (Vec2 \<Rightarrow> nat \<Rightarrow> Vec2) \<Rightarrow> AreaOptions option \<Rightarrow> Pedestrian list \<Rightarrow> GenState
     \<Rightarrow> failure + Pedestrian list \<times> GenState" where
  "placeAttempt b destinationFn options peds st =
     (let (ux, st1) = random st;
          (uy, st2) = random st1;
          pos = \<lparr>vecx = xMin b + ux * (xMax b - xMin b), vecy = yMin b + uy * (yMax b - yMin b)\<rparr>;
          uMass = (case options of Some opt \<Rightarrow> uniformMass opt | None \<Rightarrow> None);
          (m, st3) =
            (case uMass of
               Some m \<Rightarrow> (m, st2)
             | None \<Rightarrow> (let (u, s') = random st2 in (60 + u * 40, s')));
          r = m / 320
      in if overlapsPlaced pos r peds then Inr (peds, st3)
         else
           (let index = length peds;
                (z, st4) =
                  (case (case options of Some opt \<Rightarrow> desiredSpeedMean opt | None \<Rightarrow> None) of
                     Some mean \<Rightarrow>
                       randomNormal mean
                         (case (case options of Some opt \<Rightarrow> desiredSpeedStd opt | None \<Rightarrow> None) of
                            Some sd \<Rightarrow> sd | None \<Rightarrow> 0.2) st3
                   | None \<Rightarrow> randomNormal 1.3 0.2 st3)
            in case js_max 0.5 z of
                 Fin speed \<Rightarrow>
                   (case createPedestrian
                           \<lparr>optPosition = pos,
                            optDestination = destinationFn pos index,
                            optMass = uMass,
                            optDesiredSpeed = Some speed,
                            optVelocity = None,
                            optDirection =
                              Some (case (case options of Some opt \<Rightarrow> directionFn opt | None \<Rightarrow> None) of
                                      Some f \<Rightarrow> f index | None \<Rightarrow> 1)\<rparr> st4 of
                      Inl e \<Rightarrow> Inl e
                    | Inr (ped, st5) \<Rightarrow> Inr (peds @ [ped], st5))
               | _ \<Rightarrow> Inl NonFinite))"

text \<open>
  The loop itself; its state is the list of pedestrians placed so far, the number of
  attempts made and the generator.
\<close>

record PlaceState =
  placed :: "Pedestrian list"
  attempts :: nat
  gen :: GenState

function placeLoop ::
  "nat \<Rightarrow> Bounds \<Rightarrow> (Vec2 \<Rightarrow> nat \<Rightarrow> Vec2) \<Rightarrow> AreaOptions option \<Rightarrow> PlaceState \<Rightarrow> failure + PlaceState" where
  "placeLoop count b destinationFn options s =
     (if length (placed s) < count \<and> attempts s < count * 100 then
        (case placeAttempt b destinationFn options (placed s) (gen s) of
           Inl e \<Rightarrow> Inl e
         | Inr (peds', st') \<Rightarrow>
             placeLoop count b destinationFn options
               \<lparr>placed = peds', attempts = attempts s + 1, gen = st'\<rparr>)
      else Inr s)"
  by pat_completeness auto
termination
  by (relation "measure (\<lambda>(count, b, destinationFn, options, s). count * 100 - attempts s)") auto

declare placeLoop.simps [simp del]

text \<open>
  The result holds the returned list in \<open>placed\<close>, with the number of attempts made
  and the generator left behind.
\<close>

definition createPedestriansInArea ::
  "nat \<Rightarrow> Bounds \<Rightarrow> (Vec2 \<Rightarrow> nat \<Rightarrow> Vec2) \<Rightarrow> AreaOptions option \<Rightarrow> GenState \<Rightarrow> failure + PlaceState" where
  "createPedestriansInArea count b destinationFn options st =
     placeLoop count b destinationFn options \<lparr>placed = [], attempts = 0, gen = st\<rparr>"

section \<open>Simulation (simulation/simulation.ts)\<close>

text \<open>
  The public fields of a \<open>Simulation\<close> object, and the object with its registered
  callbacks. A callback receives the simulation and may change its public fields.
\<close>

record SimState =
  pedestrians :: "Pedestrian list"
  environment :: Environment
  params :: SimulationParams
  time :: real

record Simulation = SimState +
  onStepCallbacks :: "(SimState \<Rightarrow> SimState) list"

text \<open>\<open>Partial<SimulationParams>\<close>: a field is \<open>None\<close> when the key is absent.\<close>

record PartialParams =
  tauOpt :: "real option"
  phiOpt :: "real option"
  dMaxOpt :: "real option"
  kOpt :: "real option"
  dtOpt :: "real option"
  angularResolutionOpt :: "real option"

text \<open>The spread \<open>{ ...defaultParams, ...params }\<close>.\<close>

definition mergeParams :: "SimulationParams \<Rightarrow> PartialParams \<Rightarrow> SimulationParams" where
  "mergeParams d q =
     \<lparr>tau = (case tauOpt q of Some v \<Rightarrow> v | None \<Rightarrow> tau d),
      phi = (case phiOpt q of Some v \<Rightarrow> v | None \<Rightarrow> phi d),
      dMax = (case dMaxOpt q of Some v \<Rightarrow> v | None \<Rightarrow> dMax d),
      kContact = (case kOpt q of Some v \<Rightarrow> v | None \<Rightarrow> kContact d),
      dt = (case dtOpt q of Some v \<Rightarrow> v | None \<Rightarrow> dt d),
      angularResolution =
        (case angularResolutionOpt q of Some v \<Rightarrow> v | None \<Rightarrow> angularResolution d)\<rparr>"

definition newSimulation :: "Environment \<Rightarrow> PartialParams \<Rightarrow> Simulation" where
  "newSimulation env q =
     \<lparr>pedestrians = [], environment = env, params = mergeParams defaultParams q, time = 0,
      onStepCallbacks = []\<rparr>"

definition addPedestrians :: "Pedestrian list \<Rightarrow> Simulation \<Rightarrow> Simulation" where
  "addPedestrians peds sim = sim\<lparr>pedestrians := pedestrians sim @ peds\<rparr>"

definition onStep :: "(SimState \<Rightarrow> SimState) \<Rightarrow> Simulation \<Rightarrow> Simulation" where
  "onStep callback sim = sim\<lparr>onStepCallbacks := onStepCallbacks sim @ [callback]\<rparr>"

text \<open>The heading that \<open>step\<close> computes for one pedestrian.\<close>

definition stepHeading :: "bool \<Rightarrow> Pedestrian \<Rightarrow> real" where
  "stepHeading periodic ped =
     (if periodic then (if direction ped > 0 then 0 else pi)
      else
        (let toDestination = vec2_sub (destination ped) (position ped);
             dst = vec2_length toDestination
         in if dst > 0.1 then vec2_angle toDestination
            else if vec2_length (velocity ped) > 0.01 then vec2_angle (velocity ped)
            else 0))"

text \<open>
  The body of the loop of \<open>step\<close> for an active pedestrian \<open>ped\<close>, with the list
  \<open>peds\<close> as it is when the loop reaches \<open>ped\<close> and the contact force \<open>force\<close> on it.
  The result is the pedestrian with the velocity and position written by this pass.
  An undefined \<open>alphaDes\<close>, a speed that is not finite, and \<open>1 / tau\<close> or \<open>1 / mass\<close>
  with a zero divisor all make the new velocity non-finite.
\<close>

definition updatePedestrian ::
  "Environment \<Rightarrow> SimulationParams \<Rightarrow> Vec2 \<Rightarrow> Pedestrian list \<Rightarrow> Pedestrian \<Rightarrow> failure + Pedestrian" where
  "updatePedestrian env p force peds ped =
     (let periodic = (boundaryType env = BPeriodic);
          heading = stepHeading periodic ped
      in case computeVision ped peds (walls env) p (Some (bounds env)) periodic (Some heading) of
           Inl e \<Rightarrow> Inl e
         | Inr vision \<Rightarrow>
             (case computeDesiredVelocity (desiredSpeed ped) (angles vision) (distances vision) p of
                (Some alpha, Fin speedDes) \<Rightarrow>
                  (case (js_div 1 (tau p), js_div 1 (mass ped)) of
                     (Fin invTau, Fin invMass) \<Rightarrow>
                       (let absDirection = heading + alpha;
                            vDes = vec2_fromAngle absDirection speedDes;
                            relaxation = vec2_scale (vec2_sub vDes (velocity ped)) invTau;
                            contactAccel = vec2_scale force invMass;
                            acceleration = vec2_add relaxation contactAccel;
                            v' = vec2_add (velocity ped) (vec2_scale acceleration (dt p));
                            x' = vec2_add (position ped) (vec2_scale v' (dt p))
                        in Inr (ped\<lparr>velocity := v',
                                    position := (if periodic then wrapPosition x' (bounds env)
                                                 else x')\<rparr>))
                   | _ \<Rightarrow> Inl NonFinite)
              | _ \<Rightarrow> Inl NonFinite))"

text \<open>
  The loop of \<open>step\<close> over the indices: each active pedestrian is replaced in the
  list by its updated state before the next index is visited. The entries of the list
  are distinct objects: a write to one pedestrian changes one entry.
\<close>

fun stepLoop ::
  "Environment \<Rightarrow> SimulationParams \<Rightarrow> Vec2 list \<Rightarrow> Pedestrian list \<Rightarrow> nat list \<Rightarrow> failure + Pedestrian list" where
  "stepLoop env p forces peds [] = Inr peds"
| "stepLoop env p forces peds (i # rest) =
     (let ped = peds ! i
      in if \<not> active ped then stepLoop env p forces peds rest
         else
           (case updatePedestrian env p (forces ! i) peds ped of
              Inl e \<Rightarrow> Inl e
            | Inr ped' \<Rightarrow> stepLoop env p forces (peds[i := ped']) rest))"

definition step :: "Simulation \<Rightarrow> failure + Simulation" where
  "step sim =
     (let peds = pedestrians sim;
          env = environment sim;
          p = params sim;
          periodic = (boundaryType env = BPeriodic);
          forces = computeContactForces peds (walls env) p (Some (bounds env)) periodic
      in case stepLoop env p forces peds [0..<length peds] of
           Inl e \<Rightarrow> Inl e
         | Inr peds' \<Rightarrow>
             (let st = foldl (\<lambda>s callback. callback s)
                         \<lparr>pedestrians = peds', environment = env, params = p, time = time sim + dt p\<rparr>
                         (onStepCallbacks sim)
              in Inr \<lparr>pedestrians = pedestrians st, environment = environment st,
                      params = params st, time = time st,
                      onStepCallbacks = onStepCallbacks sim\<rparr>))"

section \<open>Quantities of the statements\<close>

text \<open>
  The force of the pair \<open>(i, j)\<close> on the pedestrian at index \<open>i\<close>: stiffness times
  overlap along the unit vector between the centres, zero when one of the two is
  inactive or they do not overlap.
\<close>

definition pairForce ::
  "Pedestrian list \<Rightarrow> SimulationParams \<Rightarrow> Bounds option \<Rightarrow> bool \<Rightarrow> nat \<Rightarrow> nat \<Rightarrow> Vec2" where
  "pairForce peds p bnds periodic i j =
     (let pedI = peds ! i;
          pedJ = peds ! j;
          delta =
            (case (periodic, bnds) of
               (True, Some b) \<Rightarrow> periodicDisplacement (position pedJ) (position pedI) b
             | _ \<Rightarrow> vec2_sub (position pedI) (position pedJ));
          dst = vec2_length delta;
          overlap = radius pedI + radius pedJ - dst
      in if active pedI \<and> active pedJ \<and> overlap > 0
         then vec2_scale (if dst > eps10 then vec2_scale delta (1 / dst) else \<lparr>vecx = 1, vecy = 0\<rparr>)
                (kContact p * overlap)
         else vec2_zero)"


section \<open>Concrete inputs\<close>

text \<open>A sequence of draws given by a finite list, continued with zeros.\<close>

definition fixedDraws :: "real list \<Rightarrow> nat \<Rightarrow> real" where
  "fixedDraws xs n = (if n < length xs then xs ! n else 0)"

definition genFrom :: "real list \<Rightarrow> GenState" where
  "genFrom xs = \<lparr>nextId = 0, randomSource = fixedDraws xs, randomPos = 0\<rparr>"

definition origin :: Vec2 where
  "origin = \<lparr>vecx = 0, vecy = 0\<rparr>"

definition unitSquare :: Bounds where
  "unitSquare = \<lparr>xMin = 0, xMax = 1, yMin = 0, yMax = 1\<rparr>"

definition emptyRoom :: Environment where
  "emptyRoom = createEnvironment [] \<lparr>xMin = 0, xMax = 10, yMin = 0, yMax = 10\<rparr> BClosed"

text \<open>
  Two pedestrians on the x axis, both bound for a far point on it, in a setting with
  three sampled angles (\<open>-pi/2\<close>, \<open>0\<close>, \<open>pi/2\<close>).
\<close>

definition coarseParams :: SimulationParams where
  "coarseParams = \<lparr>tau = 2, phi = pi / 2, dMax = 20, kContact = 5000, dt = 1,
                    angularResolution = pi / 2\<rparr>"

definition pedA :: Pedestrian where
  "pedA = \<lparr>pid = 0, position = \<lparr>vecx = 0, vecy = 0\<rparr>, velocity = \<lparr>vecx = 0, vecy = 0\<rparr>,
           mass = 160, radius = 1 / 2, desiredSpeed = 6,
           destination = \<lparr>vecx = 100, vecy = 0\<rparr>, direction = 1, active = True\<rparr>"

definition pedB :: Pedestrian where
  "pedB = \<lparr>pid = 1, position = \<lparr>vecx = - 5, vecy = 0\<rparr>, velocity = \<lparr>vecx = 0, vecy = 0\<rparr>,
           mass = 160, radius = 1 / 2, desiredSpeed = 4,
           destination = \<lparr>vecx = 100, vecy = 0\<rparr>, direction = 1, active = True\<rparr>"






text \<open>
  A periodic room, and a pedestrian in it whose direction sign points left while its
  destination lies to the right.
\<close>

definition periodicRoom :: Environment where
  "periodicRoom = createEnvironment [] \<lparr>xMin = - 10, xMax = 10, yMin = - 10, yMax = 10\<rparr> BPeriodic"

definition leftWalker :: Pedestrian where
  "leftWalker = pedB\<lparr>position := \<lparr>vecx = - 9, vecy = 0\<rparr>, direction := - 1\<rparr>"

text \<open>
  A placement as the unidirectional scenario requests it (no uniform mass; destination
  on the right edge; everybody walking right), on twelve draws: position, mass for the overlap test,
  two draws for the speed, and the mass drawn again by \<open>createPedestrian\<close>, for each of
  two pedestrians.
\<close>

definition toRightEdge :: "Vec2 \<Rightarrow> nat \<Rightarrow> Vec2" where
  "toRightEdge pos index = \<lparr>vecx = 1, vecy = vecy pos\<rparr>"

definition allRight :: "nat \<Rightarrow> real" where
  "allRight index = 1"

definition scenarioOptions :: AreaOptions where
  "scenarioOptions = \<lparr>desiredSpeedMean = Some 1.3, desiredSpeedStd = Some 0.2, uniformMass = None,
                        directionFn = Some allRight\<rparr>"

definition overlapDraws :: "real list" where
  "overlapDraws = [0, 0, 0, 1 / 2, 1 / 4, 0, 9 / 20, 0, 0, 1 / 2, 1 / 4, 3 / 4]"

definition firstPlaced :: Pedestrian where
  "firstPlaced = \<lparr>pid = 0, position = \<lparr>vecx = 0, vecy = 0\<rparr>, velocity = vec2_zero, mass = 60,
                  radius = 3 / 16, desiredSpeed = 13 / 10,
                  destination = \<lparr>vecx = 1, vecy = 0\<rparr>, direction = 1, active = True\<rparr>"

definition secondPlaced :: Pedestrian where
  "secondPlaced = \<lparr>pid = 1, position = \<lparr>vecx = 9 / 20, vecy = 0\<rparr>, velocity = vec2_zero, mass = 90,
                   radius = 9 / 32, desiredSpeed = 13 / 10,
                   destination = \<lparr>vecx = 1, vecy = 0\<rparr>, direction = 1, active = True\<rparr>"

text \<open>Three pedestrians in a row, each overlapping the two others.\<close>

definition rowPed :: "int \<Rightarrow> real \<Rightarrow> Pedestrian" where
  "rowPed n x = \<lparr>pid = n, position = \<lparr>vecx = x, vecy = 0\<rparr>, velocity = \<lparr>vecx = 0, vecy = 0\<rparr>,
                 mass = 160, radius = 1 / 2, desiredSpeed = 1,
                 destination = \<lparr>vecx = 100, vecy = 0\<rparr>, direction = 1, active = True\<rparr>"

definition rowOfThree :: "Pedestrian list" where
  "rowOfThree = [rowPed 0 0, rowPed 1 (1 / 2), rowPed 2 (3 / 4)]"




section \<open>Evaluation on the concrete inputs\<close>

lemma numSteps_coarse: "numSteps coarseParams = Some 3"
  by (simp add: numSteps_def coarseParams_def js_div_def)

lemma upt3: "[0..<3] = [0, Suc 0, 2]"
  by (simp add: upt_rec)

lemma sampleAngle_coarse:
  "sampleAngle coarseParams 0 = - (pi / 2)"
  "sampleAngle coarseParams (Suc 0) = 0"
  "sampleAngle coarseParams 2 = pi / 2"
  by (simp_all add: sampleAngle_def coarseParams_def)

lemma sqrt_vals:
  "sqrt 16 = 4" "sqrt 25 = 5" "sqrt 36 = 6" "sqrt 64 = 8" "sqrt 100 = 10" "sqrt 144 = 12"
  "sqrt 10000 = 100" "sqrt 11025 = 105"
  by (rule real_sqrt_unique; simp)+

lemma fromAngle_vals:
  "vec2_fromAngle (- (pi / 2)) m = \<lparr>vecx = 0, vecy = - m\<rparr>"
  "vec2_fromAngle 0 m = \<lparr>vecx = m, vecy = 0\<rparr>"
  "vec2_fromAngle (pi / 2) m = \<lparr>vecx = 0, vecy = m\<rparr>"
  "vec2_fromAngle pi m = \<lparr>vecx = - m, vecy = 0\<rparr>"
  by (simp_all add: vec2_fromAngle_def)

lemma computeVision_coarse:
  "computeVision ped others ws coarseParams bnds periodic (Some h)
     = Inr \<lparr>angles = [- (pi / 2), 0, pi / 2],
            distances = [visionDistance ped others ws coarseParams bnds periodic h (- (pi / 2)),
                         visionDistance ped others ws coarseParams bnds periodic h 0,
                         visionDistance ped others ws coarseParams bnds periodic h (pi / 2)]\<rparr>"
  by (simp add: computeVision_def numSteps_coarse upt3 sampleAngle_coarse)

text \<open>Pedestrian B looks at A, which stands still five metres ahead.\<close>

lemma collision_B_A:
  "collisionDistancePedestrian pedB pedA \<lparr>vecx = 0, vecy = - 4\<rparr> 20 = 20"
  "collisionDistancePedestrian pedB pedA \<lparr>vecx = 4, vecy = 0\<rparr> 20 = 4"
  "collisionDistancePedestrian pedB pedA \<lparr>vecx = 0, vecy = 4\<rparr> 20 = 20"
  by (simp_all add: collisionDistancePedestrian_def pedA_def pedB_def Let_def eps10_def eps6_def
      vec2_length_def sqrt_vals)

lemma visionDistance_B_A:
  "visionDistance pedB [pedB, pedA] [] coarseParams bnds False 0 (- (pi / 2)) = 20"
  "visionDistance pedB [pedB, pedA] [] coarseParams bnds False 0 0 = 4"
  "visionDistance pedB [pedB, pedA] [] coarseParams bnds False 0 (pi / 2) = 20"
  by (simp_all add: visionDistance_def visionOther_def fromAngle_vals)
     (simp_all add: pedA_def pedB_def coarseParams_def collision_B_A [unfolded pedA_def pedB_def])

lemma vision_B_A:
  "computeVision pedB [pedB, pedA] [] coarseParams bnds False (Some 0)
     = Inr \<lparr>angles = [- (pi / 2), 0, pi / 2], distances = [20, 4, 20]\<rparr>"
  by (simp add: computeVision_coarse visionDistance_B_A)









lemma desired_clear:
  "0 < s \<Longrightarrow> computeDesiredVelocity s [- (pi / 2), 0, pi / 2] [20, 20, 20] coarseParams
     = (Some 0, Fin (min s 10))"
  by (simp add: computeDesiredVelocity_def selectDirection_def selectDirection_step_def upt3
      directionCost_def coarseParams_def nth_opt_def selectSpeed_def js_div_def Let_def)














text \<open>A single pedestrian in the periodic room.\<close>

lemma periodicRoom_fields:
  "walls periodicRoom = []" "boundaryType periodicRoom = BPeriodic"
  "bounds periodicRoom = \<lparr>xMin = - 10, xMax = 10, yMin = - 10, yMax = 10\<rparr>"
  by (simp_all add: periodicRoom_def createEnvironment_def)

lemma visionDistance_alone:
  "visionDistance leftWalker [leftWalker] [] coarseParams bnds periodic h a = 20"
  by (simp add: visionDistance_def visionOther_def coarseParams_def)

lemma heading_leftWalker: "stepHeading True leftWalker = pi"
  by (simp add: stepHeading_def leftWalker_def pedB_def)

lemma wrap_vals:
  "wrapValue (- 11) (- 10) 10 = 9"
  "wrapValue 0 (- 10) 10 = 0"
  by (simp_all add: wrapValue_def wrapValue_up.simps wrapValue_down.simps)

lemma leftWalker_fields:
  "desiredSpeed leftWalker = 4" "mass leftWalker = 160"
  "velocity leftWalker = \<lparr>vecx = 0, vecy = 0\<rparr>" "position leftWalker = \<lparr>vecx = - 9, vecy = 0\<rparr>"
  by (simp_all add: leftWalker_def pedB_def)

lemma update_leftWalker:
  "updatePedestrian periodicRoom coarseParams vec2_zero [leftWalker] leftWalker
     = Inr (leftWalker\<lparr>velocity := \<lparr>vecx = - 2, vecy = 0\<rparr>, position := \<lparr>vecx = 9, vecy = 0\<rparr>\<rparr>)"
  unfolding updatePedestrian_def
  apply (simp add: Let_def periodicRoom_fields heading_leftWalker computeVision_coarse
      visionDistance_alone leftWalker_fields desired_clear)
  apply (simp add: Let_def js_div_def coarseParams_def fromAngle_vals vec2_sub_def vec2_scale_def
      vec2_add_def vec2_zero_def wrapPosition_def wrap_vals leftWalker_fields)
  apply (simp add: leftWalker_def pedB_def stepHeading_def fromAngle_vals periodicRoom_fields
      wrap_vals)
  done

text \<open>Draws and pedestrian creation.\<close>

lemma boxMuller_mean: "boxMuller m s (1 / 2) (1 / 4) = Fin m"
  by (simp add: boxMuller_def)

lemma fixedDraws_vals:
  "fixedDraws (x # xs) 0 = x"
  "fixedDraws (x # xs) (Suc n) = fixedDraws xs n"
  "fixedDraws [] n = 0"
  by (simp_all add: fixedDraws_def)

lemma create_default_speed:
  "createPedestrian
     \<lparr>optPosition = origin, optDestination = origin, optMass = Some 80,
      optDesiredSpeed = None, optVelocity = None, optDirection = None\<rparr> (genFrom [1 / 2, 1 / 4])
   = Inr (\<lparr>pid = 0, position = origin, velocity = vec2_zero, mass = 80, radius = 1 / 4,
           desiredSpeed = 13 / 10, destination = origin, direction = 1, active = True\<rparr>,
          \<lparr>nextId = 1, randomSource = fixedDraws [1 / 2, 1 / 4], randomPos = 2\<rparr>)"
  by (simp add: createPedestrian_def genFrom_def randomNormal_def random_def fixedDraws_vals
      boxMuller_mean Let_def)

section \<open>Vision bounds\<close>

lemma vec2_length_nonneg: "0 \<le> vec2_length v"
  by (simp add: vec2_length_def)

lemma timeToContact_range:
  assumes "0 \<le> dm" "0 \<le> len"
  shows "0 \<le> (case (if t1 > eps6 then Some t1 else if t2 > eps6 then Some t2 else None) of
                 None \<Rightarrow> dm | Some t \<Rightarrow> min (len * t) dm)
       \<and> (case (if t1 > eps6 then Some t1 else if t2 > eps6 then Some t2 else None) of
                 None \<Rightarrow> dm | Some t \<Rightarrow> min (len * t) dm) \<le> dm"
proof -
  have "0 \<le> len * t" if "eps6 < t" for t
    using that assms(2) by (simp add: eps6_def)
  then show ?thesis using assms(1) by simp
qed

lemma collisionDistancePedestrian_range:
  assumes "0 \<le> dm"
  shows "0 \<le> collisionDistancePedestrian pedI pedJ vc dm
       \<and> collisionDistancePedestrian pedI pedJ vc dm \<le> dm"
proof -
  define dx where "dx = vecx (position pedJ) - vecx (position pedI)"
  define dy where "dy = vecy (position pedJ) - vecy (position pedI)"
  define dvx where "dvx = vecx (velocity pedJ) - vecx vc"
  define dvy where "dvy = vecy (velocity pedJ) - vecy vc"
  define cr where "cr = radius pedI + radius pedJ"
  define dot where "dot = vec2_dot (vec2_normalize vc) (vec2_normalize \<lparr>vecx = dx, vecy = dy\<rparr>)"
  define A where "A = dvx * dvx + dvy * dvy"
  define B where "B = 2 * (dvx * dx + dvy * dy)"
  define C where "C = dx * dx + dy * dy - cr * cr"
  define disc where "disc = B * B - 4 * A * C"
  define t1 where "t1 = (- B - sqrt disc) / (2 * A)"
  define t2 where "t2 = (- B + sqrt disc) / (2 * A)"
  have eq: "collisionDistancePedestrian pedI pedJ vc dm =
      (if dx * dx + dy * dy \<le> cr * cr then (if dot > 0 then 0 else dm)
       else if A < eps10 then (if C \<le> 0 then 0 else dm)
       else if disc < 0 then dm
       else (case (if t1 > eps6 then Some t1 else if t2 > eps6 then Some t2 else None) of
               None \<Rightarrow> dm | Some t \<Rightarrow> min (vec2_length vc * t) dm))"
    unfolding collisionDistancePedestrian_def Let_def t1_def t2_def disc_def C_def B_def A_def
      dot_def cr_def dvy_def dvx_def dy_def dx_def
    by (rule refl)
  show ?thesis
    unfolding eq using assms timeToContact_range [OF assms vec2_length_nonneg [of vc], of t1 t2]
    by (simp split del: if_split) (simp split: if_splits)
qed

lemma collisionDistanceWall_range:
  assumes "0 \<le> dm"
  shows "0 \<le> collisionDistanceWall ped w vc dm \<and> collisionDistanceWall ped w vc dm \<le> dm"
  using assms by (auto simp: collisionDistanceWall_def Let_def)

lemma visionOther_range:
  assumes "0 \<le> m" "m \<le> dMax p"
  shows "0 \<le> visionOther ped p bnds periodic vc m other
       \<and> visionOther ped p bnds periodic vc m other \<le> dMax p"
proof -
  have dm: "0 \<le> dMax p" using assms by simp
  show ?thesis
    using assms collisionDistancePedestrian_range [OF dm]
    by (simp add: visionOther_def Let_def min_def)
qed

lemma visionWall_range:
  assumes "0 \<le> m" "m \<le> dMax p"
  shows "0 \<le> visionWall ped p vc m w \<and> visionWall ped p vc m w \<le> dMax p"
proof -
  have dm: "0 \<le> dMax p" using assms by simp
  show ?thesis
    using assms collisionDistanceWall_range [OF dm, of ped w vc]
    by (simp add: visionWall_def min_def)
qed

lemma foldl_visionOther_range:
  assumes "0 \<le> m" "m \<le> dMax p"
  shows "0 \<le> foldl (visionOther ped p bnds periodic vc) m others
       \<and> foldl (visionOther ped p bnds periodic vc) m others \<le> dMax p"
  using assms
proof (induction others arbitrary: m)
  case Nil
  then show ?case by simp
next
  case (Cons other others)
  from visionOther_range [OF Cons.prems, of ped bnds periodic vc other] Cons.IH
  show ?case by simp
qed

lemma foldl_visionWall_range:
  assumes "0 \<le> m" "m \<le> dMax p"
  shows "0 \<le> foldl (visionWall ped p vc) m ws \<and> foldl (visionWall ped p vc) m ws \<le> dMax p"
  using assms
proof (induction ws arbitrary: m)
  case Nil
  then show ?case by simp
next
  case (Cons w ws)
  from visionWall_range [OF Cons.prems, of ped vc w] Cons.IH
  show ?case by simp
qed

lemma visionDistance_range:
  assumes "0 \<le> dMax p"
  shows "0 \<le> visionDistance ped others ws p bnds periodic h a
       \<and> visionDistance ped others ws p bnds periodic h a \<le> dMax p"
proof -
  let ?vc = "vec2_fromAngle (h + a) (desiredSpeed ped)"
  let ?m = "foldl (visionOther ped p bnds periodic ?vc) (dMax p) others"
  have m: "0 \<le> ?m \<and> ?m \<le> dMax p"
    using foldl_visionOther_range [OF assms order_refl] by simp
  then have "0 \<le> foldl (visionWall ped p ?vc) ?m ws \<and> foldl (visionWall ped p ?vc) ?m ws \<le> dMax p"
    using foldl_visionWall_range by blast
  then show ?thesis by (simp add: visionDistance_def Let_def)
qed

lemma computeVision_returns:
  assumes "angularResolution p \<noteq> 0 \<or> phi p \<le> 0"
  shows "\<exists>r. computeVision ped others ws p bnds periodic heading = Inr r"
  using assms by (auto simp: computeVision_def numSteps_def js_div_def Let_def)

section \<open>The loop of step\<close>


section \<open>Contact forces\<close>

text \<open>
  The sum of the force array through the loops of \<open>computeContactForces\<close>: a pass
  for a pair adds a force at one index and subtracts it at another and leaves the sum as
  it is; a pass for a wall adds the force of that wall.
\<close>

lemma vec2_add_commute: "vec2_add a b = vec2_add b a"
  by (simp add: vec2_add_def)

lemma vec2_add_assoc: "vec2_add (vec2_add a b) c = vec2_add a (vec2_add b c)"
  by (simp add: vec2_add_def)

lemma vec2_add_zero [simp]: "vec2_add vec2_zero a = a" "vec2_add a vec2_zero = a"
  by (simp_all add: vec2_add_def vec2_zero_def)

lemma vec2_add_sub_cancel: "vec2_add (vec2_add a f) (vec2_sub b f) = vec2_add a b"
  by (simp add: vec2_add_def vec2_sub_def)

lemma vec2_sum_Cons [simp]: "vec2_sum (v # vs) = vec2_add v (vec2_sum vs)"
  by (simp add: vec2_sum_def)

lemma vec2_sum_Nil [simp]: "vec2_sum [] = vec2_zero"
  by (simp add: vec2_sum_def)

lemma vec2_sum_append: "vec2_sum (us @ vs) = vec2_add (vec2_sum us) (vec2_sum vs)"
  by (induction us) (simp_all add: vec2_add_assoc)

lemma vec2_sum_update_add:
  "i < length fs \<Longrightarrow> vec2_sum (fs[i := vec2_add (fs ! i) f]) = vec2_add (vec2_sum fs) f"
proof (induction fs arbitrary: i)
  case Nil
  then show ?case by simp
next
  case (Cons a fs)
  show ?case
  proof (cases i)
    case 0
    then show ?thesis by (simp add: vec2_add_def)
  next
    case (Suc k)
    with Cons show ?thesis by (simp add: vec2_add_assoc)
  qed
qed

lemma vec2_sum_update_sub:
  "i < length fs \<Longrightarrow> vec2_add (vec2_sum (fs[i := vec2_sub (fs ! i) f])) f = vec2_sum fs"
proof (induction fs arbitrary: i)
  case Nil
  then show ?case by simp
next
  case (Cons a fs)
  show ?case
  proof (cases i)
    case 0
    then show ?thesis by (simp add: vec2_add_def vec2_sub_def)
  next
    case (Suc k)
    with Cons show ?thesis by (simp add: vec2_add_assoc)
  qed
qed

lemma vec2_add_right_cancel: "vec2_add a f = vec2_add b f \<Longrightarrow> a = b"
  by (cases a, cases b) (simp add: vec2_add_def)

lemma contactPair_length [simp]:
  "length (contactPair peds p bnds periodic i fs j) = length fs"
  by (simp add: contactPair_def Let_def)

lemma contactPair_sum:
  assumes "i < length fs" "j < length fs"
  shows "vec2_sum (contactPair peds p bnds periodic i fs j) = vec2_sum fs"
proof -
  have "vec2_sum ((fs[i := vec2_add (fs ! i) f])[j := vec2_sub ((fs[i := vec2_add (fs ! i) f]) ! j) f])
      = vec2_sum fs" for f
  proof -
    let ?g = "fs[i := vec2_add (fs ! i) f]"
    have "vec2_add (vec2_sum (?g[j := vec2_sub (?g ! j) f])) f = vec2_sum ?g"
      using assms by (intro vec2_sum_update_sub) simp
    also have "\<dots> = vec2_add (vec2_sum fs) f"
      using assms(1) by (rule vec2_sum_update_add)
    finally show ?thesis by (rule vec2_add_right_cancel)
  qed
  then show ?thesis by (simp add: contactPair_def Let_def)
qed

lemma foldl_contactPair:
  assumes "i < length fs" "\<forall>j \<in> set js. j < length fs"
  shows "length (foldl (contactPair peds p bnds periodic i) fs js) = length fs
       \<and> vec2_sum (foldl (contactPair peds p bnds periodic i) fs js) = vec2_sum fs"
  using assms
proof (induction js arbitrary: fs)
  case Nil
  then show ?case by simp
next
  case (Cons j js)
  let ?g = "contactPair peds p bnds periodic i fs j"
  have "i < length ?g" "\<forall>j \<in> set js. j < length ?g" using Cons.prems by simp_all
  from Cons.IH [OF this] contactPair_sum [of i fs j peds p bnds periodic] Cons.prems
  show ?case by simp
qed

lemma contactWall_length [simp]: "length (contactWall peds p i fs w) = length fs"
  by (simp add: contactWall_def Let_def)

lemma contactWall_sum:
  assumes "i < length fs"
  shows "vec2_sum (contactWall peds p i fs w) = vec2_add (vec2_sum fs) (wallForce p (peds ! i) w)"
  using assms by (simp add: contactWall_def wallForce_def Let_def vec2_sum_update_add)

lemma foldl_contactWall:
  assumes "i < length fs"
  shows "length (foldl (contactWall peds p i) fs ws) = length fs
       \<and> vec2_sum (foldl (contactWall peds p i) fs ws)
           = vec2_add (vec2_sum fs) (vec2_sum (map (wallForce p (peds ! i)) ws))"
  using assms
proof (induction ws arbitrary: fs)
  case Nil
  then show ?case by simp
next
  case (Cons w ws)
  let ?g = "contactWall peds p i fs w"
  have "i < length ?g" using Cons.prems by simp
  from Cons.IH [OF this] contactWall_sum [OF Cons.prems, of peds p w]
  show ?case by (simp add: vec2_add_assoc)
qed

lemma contactOuter_sum:
  assumes "i < length fs" "length fs = length peds"
  shows "length (contactOuter peds ws p bnds periodic fs i) = length fs
       \<and> vec2_sum (contactOuter peds ws p bnds periodic fs i)
           = vec2_add (vec2_sum fs) (wallForcesOn ws p (peds ! i))"
proof (cases "active (peds ! i)")
  case False
  then show ?thesis by (simp add: contactOuter_def wallForcesOn_def)
next
  case True
  let ?g = "foldl (contactPair peds p bnds periodic i) fs [i + 1..<length peds]"
  have js: "\<forall>j \<in> set [i + 1..<length peds]. j < length fs" using assms(2) by simp
  from foldl_contactPair [OF assms(1) js, of peds p bnds periodic]
  have g: "length ?g = length fs" "vec2_sum ?g = vec2_sum fs" by simp_all
  then have "i < length ?g" using assms(1) by simp
  from foldl_contactWall [OF this, of peds p ws] g True
  show ?thesis by (simp add: contactOuter_def wallForcesOn_def Let_def)
qed

lemma foldl_contactOuter:
  assumes "n \<le> length peds" "length fs = length peds"
  shows "length (foldl (contactOuter peds ws p bnds periodic) fs [0..<n]) = length fs
       \<and> vec2_sum (foldl (contactOuter peds ws p bnds periodic) fs [0..<n])
           = vec2_add (vec2_sum fs) (vec2_sum (map (wallForcesOn ws p) (take n peds)))"
  using assms(1)
proof (induction n)
  case 0
  then show ?case by simp
next
  case (Suc n)
  let ?g = "foldl (contactOuter peds ws p bnds periodic) fs [0..<n]"
  from Suc have ih: "length ?g = length fs"
    "vec2_sum ?g = vec2_add (vec2_sum fs) (vec2_sum (map (wallForcesOn ws p) (take n peds)))"
    by simp_all
  have n: "n < length ?g" "length ?g = length peds" using ih(1) Suc.prems assms(2) by simp_all
  have tk: "take (Suc n) peds = take n peds @ [peds ! n]"
    using Suc.prems by (simp add: take_Suc_conv_app_nth)
  from contactOuter_sum [OF n, of ws p bnds periodic] ih
  show ?case by (simp add: tk vec2_sum_append vec2_add_assoc)
qed

lemma vec2_sum_zeros: "vec2_sum (map (\<lambda>_. vec2_zero) xs) = vec2_zero"
  by (induction xs) simp_all

lemma wallForcesOn_no_walls: "vec2_sum (map (wallForcesOn [] p) peds) = vec2_zero"
  by (induction peds) (simp_all add: wallForcesOn_def)

lemma computeContactForces_sum:
  "vec2_sum (computeContactForces peds ws p bnds periodic) = vec2_sum (map (wallForcesOn ws p) peds)"
  using foldl_contactOuter [of "length peds" peds "map (\<lambda>_. vec2_zero) peds" ws p bnds periodic]
  by (simp add: computeContactForces_def vec2_sum_zeros)

lemma computeContactForces_pair:
  "\<exists>f. computeContactForces [a, b] [] p bnds periodic = [f, vec2_scale f (- 1)]"
  by (simp add: computeContactForces_def contactOuter_def contactPair_def Let_def upt_rec
      vec2_zero_def vec2_add_def vec2_sub_def vec2_scale_def)

text \<open>
  The force array index by index: a pass for the pair \<open>(i, j)\<close> adds the force of the
  pair at \<open>i\<close> and subtracts it at \<open>j\<close>; the inner loop, the wall loop and a pass
  of the outer loop follow.
\<close>

lemmas vec2_alg = vec2_add_def vec2_sub_def vec2_zero_def

lemma vec2_sub_zero [simp]: "vec2_sub a vec2_zero = a"
  by (simp add: vec2_alg)

lemma pairForce_inactive: "\<not> active (peds ! i) \<Longrightarrow> pairForce peds p bnds periodic i j = vec2_zero"
  by (simp add: pairForce_def Let_def)

lemma vec2_sum_all_zero: "\<forall>x \<in> set xs. f x = vec2_zero \<Longrightarrow> vec2_sum (map f xs) = vec2_zero"
  by (induction xs) simp_all

lemma contactPair_effect:
  assumes "i < length forces" "j < length forces" "i \<noteq> j" "active (peds ! i)"
  shows "contactPair peds p bnds periodic i forces j
       = (forces[i := vec2_add (forces ! i) (pairForce peds p bnds periodic i j)])
           [j := vec2_sub (forces ! j) (pairForce peds p bnds periodic i j)]"
  using assms by (simp add: contactPair_def pairForce_def Let_def)

lemma foldl_contactPair_effect:
  assumes act: "active (peds ! i)" and len: "length F = n"
  shows "i < t \<Longrightarrow> t \<le> n \<Longrightarrow>
         length (foldl (contactPair peds p bnds periodic i) F [Suc i..<t]) = n
       \<and> foldl (contactPair peds p bnds periodic i) F [Suc i..<t] ! i
           = vec2_add (F ! i) (vec2_sum (map (pairForce peds p bnds periodic i) [Suc i..<t]))
       \<and> (\<forall>m. i < m \<and> m < t \<longrightarrow>
             foldl (contactPair peds p bnds periodic i) F [Suc i..<t] ! m
               = vec2_sub (F ! m) (pairForce peds p bnds periodic i m))
       \<and> (\<forall>m. m < i \<or> t \<le> m \<longrightarrow>
             foldl (contactPair peds p bnds periodic i) F [Suc i..<t] ! m = F ! m)"
proof (induction t)
  case 0
  then show ?case by simp
next
  case (Suc t)
  show ?case
  proof (cases "i = t")
    case True
    then show ?thesis using len by simp
  next
    case False
    with Suc.prems have it: "i < t" and tn: "t \<le> n" and tlt: "t < n" by simp_all
    let ?G = "foldl (contactPair peds p bnds periodic i) F [Suc i..<t]"
    let ?f = "pairForce peds p bnds periodic i t"
    from Suc.IH [OF it tn]
    have lG: "length ?G = n"
      and Gi: "?G ! i = vec2_add (F ! i) (vec2_sum (map (pairForce peds p bnds periodic i) [Suc i..<t]))"
      and Gmid: "\<forall>m. i < m \<and> m < t \<longrightarrow> ?G ! m = vec2_sub (F ! m) (pairForce peds p bnds periodic i m)"
      and Gout: "\<forall>m. m < i \<or> t \<le> m \<longrightarrow> ?G ! m = F ! m"
      by blast+
    have upt: "[Suc i..<Suc t] = [Suc i..<t] @ [t]" using it by simp
    have step: "foldl (contactPair peds p bnds periodic i) F [Suc i..<Suc t]
        = (?G[i := vec2_add (?G ! i) ?f])[t := vec2_sub (?G ! t) ?f]"
      using contactPair_effect [of i ?G t peds p bnds periodic] lG it tlt act
      by (simp add: upt)
    have Gt: "?G ! t = F ! t" using Gout by simp
    have a: "length ((?G[i := vec2_add (?G ! i) ?f])[t := vec2_sub (?G ! t) ?f]) = n"
      using lG by simp
    have b: "((?G[i := vec2_add (?G ! i) ?f])[t := vec2_sub (?G ! t) ?f]) ! i
        = vec2_add (F ! i) (vec2_sum (map (pairForce peds p bnds periodic i) [Suc i..<Suc t]))"
      using it lG tlt Gi by (simp add: upt vec2_sum_append vec2_add_assoc)
    have c: "((?G[i := vec2_add (?G ! i) ?f])[t := vec2_sub (?G ! t) ?f]) ! m
        = vec2_sub (F ! m) (pairForce peds p bnds periodic i m)" if "i < m \<and> m < Suc t" for m
    proof (cases "m = t")
      case True
      then show ?thesis using lG tlt Gt by simp
    next
      case False
      with that have "i < m \<and> m < t" by simp
      with Gmid False that show ?thesis by simp
    qed
    have d: "((?G[i := vec2_add (?G ! i) ?f])[t := vec2_sub (?G ! t) ?f]) ! m = F ! m"
      if "m < i \<or> Suc t \<le> m" for m
    proof -
      from that it have ne: "m \<noteq> i" "m \<noteq> t" and "m < i \<or> t \<le> m" by auto
      with Gout have "?G ! m = F ! m" by blast
      with ne show ?thesis by simp
    qed
    show ?thesis unfolding step using a b c d by blast
  qed
qed

lemma foldl_contactWall_effect:
  assumes "i < length F"
  shows "length (foldl (contactWall peds p i) F ws) = length F
       \<and> foldl (contactWall peds p i) F ws ! i
           = vec2_add (F ! i) (vec2_sum (map (wallForce p (peds ! i)) ws))
       \<and> (\<forall>m. m \<noteq> i \<longrightarrow> foldl (contactWall peds p i) F ws ! m = F ! m)"
  using assms
proof (induction ws arbitrary: F)
  case Nil
  then show ?case by simp
next
  case (Cons w ws)
  let ?F' = "contactWall peds p i F w"
  have l: "i < length ?F'" using Cons.prems by simp
  have i: "?F' ! i = vec2_add (F ! i) (wallForce p (peds ! i) w)"
    using Cons.prems by (simp add: contactWall_def wallForce_def Let_def)
  have o: "\<forall>m. m \<noteq> i \<longrightarrow> ?F' ! m = F ! m"
    by (simp add: contactWall_def Let_def)
  from Cons.IH [OF l] i o show ?case by (simp add: vec2_add_assoc)
qed

lemma contactOuter_effect:
  assumes "i < n" "length F = n" "length peds = n"
  shows "length (contactOuter peds ws p bnds periodic F i) = n
       \<and> contactOuter peds ws p bnds periodic F i ! i
           = vec2_add (vec2_add (F ! i) (vec2_sum (map (pairForce peds p bnds periodic i) [Suc i..<n])))
               (wallForcesOn ws p (peds ! i))
       \<and> (\<forall>m. i < m \<and> m < n \<longrightarrow>
             contactOuter peds ws p bnds periodic F i ! m
               = vec2_sub (F ! m) (pairForce peds p bnds periodic i m))
       \<and> (\<forall>m < i. contactOuter peds ws p bnds periodic F i ! m = F ! m)"
proof (cases "active (peds ! i)")
  case False
  then have "vec2_sum (map (pairForce peds p bnds periodic i) [Suc i..<n]) = vec2_zero"
    by (intro vec2_sum_all_zero) (simp add: pairForce_inactive)
  with False assms show ?thesis
    by (simp add: contactOuter_def wallForcesOn_def pairForce_inactive)
next
  case True
  let ?G = "foldl (contactPair peds p bnds periodic i) F [Suc i..<n]"
  from foldl_contactPair_effect [OF True assms(2), of "n" p bnds periodic] assms(1)
  have lG: "length ?G = n"
    and Gi: "?G ! i = vec2_add (F ! i) (vec2_sum (map (pairForce peds p bnds periodic i) [Suc i..<n]))"
    and Gmid: "\<forall>m. i < m \<and> m < n \<longrightarrow> ?G ! m = vec2_sub (F ! m) (pairForce peds p bnds periodic i m)"
    and Gout: "\<forall>m. m < i \<or> n \<le> m \<longrightarrow> ?G ! m = F ! m"
    by simp_all
  have iG: "i < length ?G" using lG assms(1) by simp
  have eq: "contactOuter peds ws p bnds periodic F i = foldl (contactWall peds p i) ?G ws"
    using True assms(3) by (simp add: contactOuter_def Let_def)
  from foldl_contactWall_effect [OF iG, of peds p ws] lG Gi Gmid Gout True
  show ?thesis unfolding eq by (simp add: wallForcesOn_def)
qed

lemma foldl_contactOuter_effect:
  assumes len: "length peds = n"
  shows "t \<le> n \<Longrightarrow>
         length (foldl (contactOuter peds ws p bnds periodic) (map (\<lambda>_. vec2_zero) peds) [0..<t]) = n
       \<and> (\<forall>m < n.
             foldl (contactOuter peds ws p bnds periodic) (map (\<lambda>_. vec2_zero) peds) [0..<t] ! m
               = (if m < t
                  then vec2_add
                         (vec2_sub (vec2_sum (map (pairForce peds p bnds periodic m) [Suc m..<n]))
                                   (vec2_sum (map (\<lambda>i. pairForce peds p bnds periodic i m) [0..<m])))
                         (wallForcesOn ws p (peds ! m))
                  else vec2_sub vec2_zero
                         (vec2_sum (map (\<lambda>i. pairForce peds p bnds periodic i m) [0..<t]))))"
proof (induction t)
  case 0
  then show ?case using len by simp
next
  case (Suc t)
  then have tn: "t \<le> n" and tlt: "t < n" by simp_all
  let ?H = "foldl (contactOuter peds ws p bnds periodic) (map (\<lambda>_. vec2_zero) peds) [0..<t]"
  let ?A = "\<lambda>m. vec2_sum (map (pairForce peds p bnds periodic m) [Suc m..<n])"
  let ?S = "\<lambda>u m. vec2_sum (map (\<lambda>i. pairForce peds p bnds periodic i m) [0..<u])"
  let ?W = "\<lambda>m. wallForcesOn ws p (peds ! m)"
  from Suc.IH [OF tn]
  have lH: "length ?H = n"
    and H: "\<forall>m < n. ?H ! m = (if m < t then vec2_add (vec2_sub (?A m) (?S m m)) (?W m)
                                else vec2_sub vec2_zero (?S t m))"
    by blast+
  let ?G = "contactOuter peds ws p bnds periodic ?H t"
  from contactOuter_effect [OF tlt lH len, of ws p bnds periodic]
  have lG: "length ?G = n"
    and Gt: "?G ! t = vec2_add (vec2_add (?H ! t) (?A t)) (?W t)"
    and Ghigh: "\<forall>m. t < m \<and> m < n \<longrightarrow> ?G ! m = vec2_sub (?H ! m) (pairForce peds p bnds periodic t m)"
    and Glow: "\<forall>m < t. ?G ! m = ?H ! m"
    by blast+
  have step: "foldl (contactOuter peds ws p bnds periodic) (map (\<lambda>_. vec2_zero) peds) [0..<Suc t] = ?G"
    by simp
  have "?G ! m = (if m < Suc t then vec2_add (vec2_sub (?A m) (?S m m)) (?W m)
                  else vec2_sub vec2_zero (?S (Suc t) m))" if m: "m < n" for m
  proof -
    consider "m < t" | "m = t" | "t < m" by linarith
    then show ?thesis
    proof cases
      case 1
      with Glow H m show ?thesis by simp
    next
      case 2
      have "?H ! t = vec2_sub vec2_zero (?S t t)" using H tlt by simp
      with Gt 2 show ?thesis by (simp add: vec2_alg)
    next
      case 3
      have "?H ! m = vec2_sub vec2_zero (?S t m)" using H m 3 by simp
      moreover have "?S (Suc t) m = vec2_add (?S t m) (pairForce peds p bnds periodic t m)"
        by (simp add: vec2_sum_append)
      ultimately show ?thesis using Ghigh 3 m by (simp add: vec2_alg)
    qed
  qed
  with lG show ?case unfolding step by blast
qed

lemma computeContactForces_nth:
  assumes "m < length peds"
  shows "computeContactForces peds ws p bnds periodic ! m
       = vec2_add
           (vec2_sub (vec2_sum (map (pairForce peds p bnds periodic m) [Suc m..<length peds]))
                     (vec2_sum (map (\<lambda>i. pairForce peds p bnds periodic i m) [0..<m])))
           (wallForcesOn ws p (peds ! m))"
  using foldl_contactOuter_effect [OF refl order_refl, of peds ws p bnds periodic] assms
  by (simp add: computeContactForces_def)

lemma computeContactForces_length:
  "length (computeContactForces peds ws p bnds periodic) = length peds"
  using foldl_contactOuter_effect [OF refl order_refl, of peds ws p bnds periodic]
  by (simp add: computeContactForces_def)

lemma vec2_length_negate: "vec2_length (vec2_scale f (- 1)) = vec2_length f"
  by (simp add: vec2_length_def vec2_scale_def)

lemma computeContactForces_two:
  "computeContactForces [a, b] [] p bnds periodic
     = [pairForce [a, b] p bnds periodic 0 1, vec2_scale (pairForce [a, b] p bnds periodic 0 1) (- 1)]"
proof -
  have l: "length (computeContactForces [a, b] [] p bnds periodic) = 2"
    by (simp add: computeContactForces_length)
  have z: "computeContactForces [a, b] [] p bnds periodic ! 0 = pairForce [a, b] p bnds periodic 0 1"
    using computeContactForces_nth [of 0 "[a, b]" "[]" p bnds periodic]
    by (simp add: wallForcesOn_def vec2_alg upt_rec)
  have o: "computeContactForces [a, b] [] p bnds periodic ! 1
      = vec2_scale (pairForce [a, b] p bnds periodic 0 1) (- 1)"
    using computeContactForces_nth [of 1 "[a, b]" "[]" p bnds periodic]
    by (simp add: wallForcesOn_def vec2_alg vec2_scale_def upt_rec)
  show ?thesis
    using l z o by (intro nth_equalityI) (auto simp: less_Suc_eq numeral_2_eq_2)
qed

text \<open>The forces of the pairs in the row of three.\<close>

lemma sqrt_fracs:
  "sqrt (1 / 4) = 1 / 2" "sqrt (1 / 16) = 1 / 4" "sqrt (9 / 16) = 3 / 4" "sqrt (1521 / 4) = 39 / 2"
  by (rule real_sqrt_unique; simp add: power2_eq_square)+

lemma pairForce_row:
  "pairForce rowOfThree coarseParams None False 0 1 = \<lparr>vecx = - 2500, vecy = 0\<rparr>"
  "pairForce rowOfThree coarseParams None False 0 2 = \<lparr>vecx = - 1250, vecy = 0\<rparr>"
  "pairForce rowOfThree coarseParams None False 1 2 = \<lparr>vecx = - 3750, vecy = 0\<rparr>"
  "pairForce rowOfThree coarseParams None False 0 (Suc 0) = \<lparr>vecx = - 2500, vecy = 0\<rparr>"
  "pairForce rowOfThree coarseParams None False (Suc 0) (Suc (Suc 0)) = \<lparr>vecx = - 3750, vecy = 0\<rparr>"
  by (simp_all add: pairForce_def rowOfThree_def rowPed_def coarseParams_def Let_def eps10_def
      vec2_sub_def vec2_length_def vec2_scale_def sqrt_fracs)

lemma rowOfThree_fields:
  "length rowOfThree = 3" "active (rowOfThree ! 0)"
  by (simp_all add: rowOfThree_def rowPed_def)

section \<open>Placement\<close>

text \<open>The placement of two pedestrians on the draws \<open>overlapDraws\<close>.\<close>

lemma overlapDraws_at:
  "fixedDraws overlapDraws 0 = 0" "fixedDraws overlapDraws 1 = 0" "fixedDraws overlapDraws 2 = 0"
  "fixedDraws overlapDraws 3 = 1 / 2" "fixedDraws overlapDraws 4 = 1 / 4" "fixedDraws overlapDraws 5 = 0"
  "fixedDraws overlapDraws 6 = 9 / 20" "fixedDraws overlapDraws 7 = 0" "fixedDraws overlapDraws 8 = 0"
  "fixedDraws overlapDraws 9 = 1 / 2" "fixedDraws overlapDraws 10 = 1 / 4" "fixedDraws overlapDraws 11 = 3 / 4"
  by (simp_all add: fixedDraws_def overlapDraws_def)

lemma sqrt_81_400: "sqrt (81 / 400) = 9 / 20"
  by (rule real_sqrt_unique) (simp_all add: power2_eq_square)

lemma placeAttempt_first:
  "placeAttempt unitSquare toRightEdge (Some scenarioOptions) []
     \<lparr>nextId = 0, randomSource = fixedDraws overlapDraws, randomPos = 0\<rparr>
   = Inr ([firstPlaced], \<lparr>nextId = 1, randomSource = fixedDraws overlapDraws, randomPos = 6\<rparr>)"
  by (simp add: placeAttempt_def random_def randomNormal_def createPedestrian_def Let_def
      overlapDraws_def fixedDraws_vals boxMuller_mean unitSquare_def scenarioOptions_def overlapsPlaced_def
      toRightEdge_def allRight_def firstPlaced_def)

lemma placeAttempt_second:
  "placeAttempt unitSquare toRightEdge (Some scenarioOptions) [firstPlaced]
     \<lparr>nextId = 1, randomSource = fixedDraws overlapDraws, randomPos = 6\<rparr>
   = Inr ([firstPlaced, secondPlaced],
          \<lparr>nextId = 2, randomSource = fixedDraws overlapDraws, randomPos = 12\<rparr>)"
  by (simp add: placeAttempt_def random_def randomNormal_def createPedestrian_def Let_def
      overlapDraws_at boxMuller_mean unitSquare_def scenarioOptions_def overlapsPlaced_def
      toRightEdge_def allRight_def firstPlaced_def secondPlaced_def
      vec2_distance_def vec2_sub_def vec2_length_def sqrt_81_400)

lemma placed_overlap_eval:
  "createPedestriansInArea 2 unitSquare toRightEdge (Some scenarioOptions) (genFrom overlapDraws)
     = Inr \<lparr>placed = [firstPlaced, secondPlaced], attempts = 2,
            gen = \<lparr>nextId = 2, randomSource = fixedDraws overlapDraws, randomPos = 12\<rparr>\<rparr>"
  by (simp add: createPedestriansInArea_def genFrom_def placeLoop.simps
      placeAttempt_first placeAttempt_second)

lemma placed_distance:
  "vec2_distance (position firstPlaced) (position secondPlaced) = 9 / 20"
  by (simp add: vec2_distance_def vec2_sub_def vec2_length_def firstPlaced_def secondPlaced_def
      sqrt_81_400)

text \<open>
  What holds of the placement loop: it returns at most \<open>count\<close> pedestrians after
  at most \<open>count * 100\<close> attempts; and when a uniform mass is given, the radius tested
  for overlap is the radius of the pedestrian created, so the pedestrians returned are
  pairwise separated by their radii and the margin.
\<close>

lemma createPedestrian_fields:
  assumes "createPedestrian options st = Inr (ped, st')"
  shows "position ped = optPosition options
       \<and> (\<forall>m. optMass options = Some m \<longrightarrow> radius ped = m / 320)"
  using assms
  by (auto simp: createPedestrian_def Let_def split: option.splits prod.splits jsnum.splits)

lemma placeAttempt_result:
  assumes "placeAttempt b destinationFn options peds st = Inr (peds', st')"
  shows "peds' = peds \<or> (\<exists>ped. peds' = peds @ [ped])"
  using assms
  by (auto simp: placeAttempt_def Let_def split: prod.splits if_splits jsnum.splits sum.splits)

lemma placeLoop_bounds:
  assumes "placeLoop count b destinationFn options s = Inr s'"
    "length (placed s) \<le> count" "attempts s \<le> count * 100"
  shows "length (placed s') \<le> count \<and> attempts s' \<le> count * 100"
  using assms
proof (induction count b destinationFn options s rule: placeLoop.induct)
  case (1 count b destinationFn options s)
  show ?case
  proof (cases "length (placed s) < count \<and> attempts s < count * 100")
    case False
    with "1.prems" show ?thesis by (simp add: placeLoop.simps)
  next
    case True
    with "1.prems"(1) obtain peds' st' where
      att: "placeAttempt b destinationFn options (placed s) (gen s) = Inr (peds', st')"
      and rest: "placeLoop count b destinationFn options
                   \<lparr>placed = peds', attempts = attempts s + 1, gen = st'\<rparr> = Inr s'"
      by (auto simp: placeLoop.simps [of count b destinationFn options s] split: sum.splits)
    from placeAttempt_result [OF att] True have "length peds' \<le> count" by auto
    with "1.IH" [OF True att refl rest] True show ?thesis by simp
  qed
qed


lemma placeAttempt_uniform:
  assumes "placeAttempt b destinationFn (Some opt) peds st = Inr (peds', st')"
    "uniformMass opt = Some m"
  shows "peds' = peds
       \<or> (\<exists>ped. peds' = peds @ [ped] \<and> radius ped = m / 320
                \<and> \<not> overlapsPlaced (position ped) (m / 320) peds)"
  using assms
  by (auto simp: placeAttempt_def Let_def
      split: prod.splits if_splits jsnum.splits sum.splits
      dest!: createPedestrian_fields)

lemma separated_snoc:
  assumes sep: "\<forall>i j. i < j \<and> j < length peds \<longrightarrow>
            radius (peds ! i) + radius (peds ! j) + 0.05
              \<le> vec2_distance (position (peds ! j)) (position (peds ! i))"
    and new: "\<not> overlapsPlaced (position ped) (radius ped) peds"
  shows "\<forall>i j. i < j \<and> j < length (peds @ [ped]) \<longrightarrow>
            radius ((peds @ [ped]) ! i) + radius ((peds @ [ped]) ! j) + 0.05
              \<le> vec2_distance (position ((peds @ [ped]) ! j)) (position ((peds @ [ped]) ! i))"
proof (intro allI impI)
  fix i j assume ij: "i < j \<and> j < length (peds @ [ped])"
  show "radius ((peds @ [ped]) ! i) + radius ((peds @ [ped]) ! j) + 0.05
              \<le> vec2_distance (position ((peds @ [ped]) ! j)) (position ((peds @ [ped]) ! i))"
  proof (cases "j < length peds")
    case True
    with ij sep show ?thesis by (simp add: nth_append)
  next
    case False
    with ij have j: "j = length peds" and i: "i < length peds" by simp_all
    from i have "peds ! i \<in> set peds" by simp
    with new have "\<not> vec2_distance (position ped) (position (peds ! i))
                       < radius ped + radius (peds ! i) + 0.05"
      by (auto simp: overlapsPlaced_def list_ex_iff)
    with i j show ?thesis by (simp add: nth_append)
  qed
qed

lemma placeLoop_separated_uniform:
  assumes "placeLoop count b destinationFn (Some opt) s = Inr s'"
    "uniformMass opt = Some m"
    "\<forall>i j. i < j \<and> j < length (placed s) \<longrightarrow>
            radius (placed s ! i) + radius (placed s ! j) + 0.05
              \<le> vec2_distance (position (placed s ! j)) (position (placed s ! i))"
  shows "\<forall>i j. i < j \<and> j < length (placed s') \<longrightarrow>
            radius (placed s' ! i) + radius (placed s' ! j) + 0.05
              \<le> vec2_distance (position (placed s' ! j)) (position (placed s' ! i))"
  using assms
proof (induction count b destinationFn "Some opt" s rule: placeLoop.induct)
  case (1 count b destinationFn s)
  show ?case
  proof (cases "length (placed s) < count \<and> attempts s < count * 100")
    case False
    with "1.prems" show ?thesis by (simp add: placeLoop.simps)
  next
    case True
    with "1.prems"(1) obtain peds' st' where
      att: "placeAttempt b destinationFn (Some opt) (placed s) (gen s) = Inr (peds', st')"
      and rest: "placeLoop count b destinationFn (Some opt)
                   \<lparr>placed = peds', attempts = attempts s + 1, gen = st'\<rparr> = Inr s'"
      by (auto simp: placeLoop.simps [of count b destinationFn "Some opt" s] split: sum.splits)
    have "\<forall>i j. i < j \<and> j < length peds' \<longrightarrow>
            radius (peds' ! i) + radius (peds' ! j) + 0.05
              \<le> vec2_distance (position (peds' ! j)) (position (peds' ! i))"
      using placeAttempt_uniform [OF att "1.prems"(2)] "1.prems"(3) separated_snoc [of "placed s"]
      by auto
    with "1.hyps" [OF True att refl rest "1.prems"(2)] show ?thesis by simp
  qed
qed

lemma createPedestriansInArea_uniform_separated:
  assumes "createPedestriansInArea count b destinationFn (Some opt) st = Inr s'"
    "uniformMass opt = Some m"
  shows "\<forall>i j. i < j \<and> j < length (placed s') \<longrightarrow>
            radius (placed s' ! i) + radius (placed s' ! j) + 0.05
              \<le> vec2_distance (position (placed s' ! j)) (position (placed s' ! i))"
  using placeLoop_separated_uniform [OF assms [unfolded createPedestriansInArea_def]] by simp

section \<open>One step of the simulation\<close>




section \<open>Heading under periodic boundaries\<close>

























section \<open>Vision distances\<close>

text \<open>
  C3. For every pedestrian, population, wall list, heading and parameters with
  \<open>dMax > 0\<close>, every distance in the sequence returned by \<open>computeVision\<close> lies in
  \<open>[0, dMax]\<close>, and there is one distance for each sampled angle. The call returns
  whenever \<open>angularResolution\<close> is not zero.
\<close>

theorem computeVision_bounds:
  assumes "0 < dMax p"
  shows "(angularResolution p \<noteq> 0 \<longrightarrow> (\<exists>r. computeVision ped others ws p bnds periodic heading = Inr r))
       \<and> (\<forall>r. computeVision ped others ws p bnds periodic heading = Inr r
             \<longrightarrow> length (distances r) = length (angles r)
               \<and> (\<forall>d \<in> set (distances r). 0 \<le> d \<and> d \<le> dMax p))"
proof -
  have dm: "0 \<le> dMax p" using assms by simp
  have "\<forall>d \<in> set (distances r). 0 \<le> d \<and> d \<le> dMax p"
    and "length (distances r) = length (angles r)"
    if "computeVision ped others ws p bnds periodic heading = Inr r" for r
    using that visionDistance_range [OF dm]
    by (auto simp: computeVision_def Let_def split: option.splits)
  then show ?thesis using computeVision_returns by blast
qed

theorem computeVision_bounds_witness:
  "0 < dMax coarseParams \<and> angularResolution coarseParams \<noteq> 0
   \<and> computeVision pedB [pedB, pedA] [] coarseParams None False (Some 0)
       = Inr \<lparr>angles = [- (pi / 2), 0, pi / 2], distances = [20, 4, 20]\<rparr>
   \<and> (0 :: real) \<le> 20 \<and> 20 \<le> dMax coarseParams
   \<and> (0 :: real) \<le> 4 \<and> 4 \<le> dMax coarseParams"
proof -
  have h: "0 < dMax coarseParams" by (simp add: coarseParams_def)
  have r: "angularResolution coarseParams \<noteq> 0" by (simp add: coarseParams_def)
  have v: "computeVision pedB [pedB, pedA] [] coarseParams None False (Some 0)
       = Inr \<lparr>angles = [- (pi / 2), 0, pi / 2], distances = [20, 4, 20]\<rparr>"
    by (rule vision_B_A)
  from computeVision_bounds [OF h, of pedB "[pedB, pedA]" "[]" None False "Some 0"] v
  have "\<forall>d \<in> set (distances \<lparr>angles = [- (pi / 2), 0, pi / 2], distances = [20, 4, 20]\<rparr>).
          0 \<le> d \<and> d \<le> dMax coarseParams"
    by blast
  with h r v show ?thesis by simp
qed

section \<open>The pairwise contact forces cancel\<close>

text \<open>
  C4. In the force array returned by \<open>computeContactForces\<close>, for a population of
  any size, the pass for a pair \<open>(i, j)\<close> adds the force of the pair to the entry of
  \<open>i\<close> and subtracts the same vector from the entry of \<open>j\<close>, and changes no other
  entry; the two contributions have the same length. The entry of a pedestrian is the
  sum of the forces of the pairs in which it comes first, minus those of the pairs in
  which it comes second, plus its wall forces. Hence the contributions of the pairs
  cancel: the sum of the array is the sum of the wall forces alone, and the zero vector
  when there is no wall. For a population of two, the array is the force of the pair
  and its negation.
\<close>

theorem contact_forces_newton3:
  "(i < length forces \<and> j < length forces \<and> i \<noteq> j \<and> active (peds ! i) \<longrightarrow>
      contactPair peds p bnds periodic i forces j
        = (forces[i := vec2_add (forces ! i) (pairForce peds p bnds periodic i j)])
            [j := vec2_sub (forces ! j) (pairForce peds p bnds periodic i j)])
   \<and> vec2_length (vec2_scale (pairForce peds p bnds periodic i j) (- 1))
       = vec2_length (pairForce peds p bnds periodic i j)
   \<and> length (computeContactForces peds ws p bnds periodic) = length peds
   \<and> (m < length peds \<longrightarrow>
        computeContactForces peds ws p bnds periodic ! m
          = vec2_add
              (vec2_sub (vec2_sum (map (pairForce peds p bnds periodic m) [Suc m..<length peds]))
                        (vec2_sum (map (\<lambda>k. pairForce peds p bnds periodic k m) [0..<m])))
              (wallForcesOn ws p (peds ! m)))
   \<and> vec2_sum (computeContactForces peds ws p bnds periodic) = vec2_sum (map (wallForcesOn ws p) peds)
   \<and> vec2_sum (computeContactForces peds [] p bnds periodic) = vec2_zero
   \<and> computeContactForces [a, b] [] p bnds periodic
       = [pairForce [a, b] p bnds periodic 0 1,
          vec2_scale (pairForce [a, b] p bnds periodic 0 1) (- 1)]"
proof -
  have "vec2_sum (computeContactForces peds [] p bnds periodic) = vec2_zero"
    by (simp add: computeContactForces_sum wallForcesOn_no_walls)
  with contactPair_effect [of i forces j peds p bnds periodic]
    vec2_length_negate [of "pairForce peds p bnds periodic i j"]
    computeContactForces_length [of peds ws p bnds periodic]
    computeContactForces_nth [of m peds ws p bnds periodic]
    computeContactForces_sum [of peds ws p bnds periodic]
    computeContactForces_two [of a b p bnds periodic]
  show ?thesis by blast
qed

theorem contact_forces_newton3_witness:
  "(0 :: nat) < length [vec2_zero, vec2_zero, vec2_zero]
   \<and> (2 :: nat) < length [vec2_zero, vec2_zero, vec2_zero]
   \<and> (0 :: nat) \<noteq> 2
   \<and> active (rowOfThree ! 0)
   \<and> (1 :: nat) < length rowOfThree
   \<and> contactPair rowOfThree coarseParams None False 0 [vec2_zero, vec2_zero, vec2_zero] 2
       = [\<lparr>vecx = - 1250, vecy = 0\<rparr>, vec2_zero, \<lparr>vecx = 1250, vecy = 0\<rparr>]
   \<and> computeContactForces rowOfThree [] coarseParams None False ! 1 = \<lparr>vecx = - 1250, vecy = 0\<rparr>"
proof -
  note inst = contact_forces_newton3 [of 0 "[vec2_zero, vec2_zero, vec2_zero]" 2 rowOfThree
      coarseParams None False "[]" 1]
  have h1: "(0 :: nat) < length [vec2_zero, vec2_zero, vec2_zero]
      \<and> (2 :: nat) < length [vec2_zero, vec2_zero, vec2_zero] \<and> (0 :: nat) \<noteq> 2
      \<and> active (rowOfThree ! 0)"
    by (simp add: rowOfThree_fields)
  have h2: "(1 :: nat) < length rowOfThree" by (simp add: rowOfThree_fields)
  from inst h1 have "contactPair rowOfThree coarseParams None False 0 [vec2_zero, vec2_zero, vec2_zero] 2
       = ([vec2_zero, vec2_zero, vec2_zero]
            [0 := vec2_add ([vec2_zero, vec2_zero, vec2_zero] ! 0)
                    (pairForce rowOfThree coarseParams None False 0 2)])
           [2 := vec2_sub ([vec2_zero, vec2_zero, vec2_zero] ! 2)
                    (pairForce rowOfThree coarseParams None False 0 2)]"
    by blast
  then have pair: "contactPair rowOfThree coarseParams None False 0 [vec2_zero, vec2_zero, vec2_zero] 2
       = [\<lparr>vecx = - 1250, vecy = 0\<rparr>, vec2_zero, \<lparr>vecx = 1250, vecy = 0\<rparr>]"
    by (simp add: pairForce_row vec2_alg)
  from inst h2 have "computeContactForces rowOfThree [] coarseParams None False ! 1
       = vec2_add
           (vec2_sub (vec2_sum (map (pairForce rowOfThree coarseParams None False 1)
                                  [Suc 1..<length rowOfThree]))
                     (vec2_sum (map (\<lambda>k. pairForce rowOfThree coarseParams None False k 1) [0..<1])))
           (wallForcesOn [] coarseParams (rowOfThree ! 1))"
    by blast
  then have entry: "computeContactForces rowOfThree [] coarseParams None False ! 1
       = \<lparr>vecx = - 1250, vecy = 0\<rparr>"
    by (simp add: rowOfThree_fields upt_rec pairForce_row wallForcesOn_def vec2_alg)
  from h1 h2 pair entry show ?thesis by blast
qed

section \<open>Direction selection\<close>




section \<open>Sampled angles\<close>

text \<open>
  The angles of a returned vision result start at \<open>-phi\<close> and are spaced by
  \<open>angularResolution\<close>; their number is fixed by the rounded-up quotient.
\<close>

lemma computeVision_angles:
  assumes "computeVision ped others ws p bnds periodic heading = Inr r"
  shows "\<exists>n. numSteps p = Some n \<and> length (angles r) = n
           \<and> (\<forall>i < n. angles r ! i = - phi p + real i * angularResolution p)"
  using assms by (auto simp: computeVision_def sampleAngle_def Let_def split: option.splits)

text \<open>
  C6 fails on the program: with \<open>phi = 1\<close> and \<open>angularResolution = 0.3\<close> the quotient
  \<open>2 phi / angularResolution\<close> is not an integer, eight angles are sampled, and the last
  one is \<open>1.1\<close>, outside \<open>[-phi, phi]\<close>.
\<close>

theorem sampled_angle_beyond_phi:
  "map_sum id angles
     (computeVision pedA [] [] (defaultParams\<lparr>phi := 1, angularResolution := 3 / 10\<rparr>) None False (Some 0))
   = Inr [- 1, - (7 / 10), - (4 / 10), - (1 / 10), 2 / 10, 5 / 10, 8 / 10, 11 / 10]
   \<and> phi (defaultParams\<lparr>phi := 1, angularResolution := 3 / 10\<rparr>) < 11 / 10"
  by (simp add: computeVision_def numSteps_def js_div_def defaultParams_def sampleAngle_def upt_rec)

section \<open>Construction\<close>

text \<open>
  C7 as stated fails: a simulation is constructed with \<open>tau = 0\<close>, \<open>phi = -1\<close>,
  \<open>dMax = 0\<close> and \<open>dt = -1\<close> and holds these parameters; a simulation constructed with
  \<open>dt = -1\<close> steps, to time \<open>-1\<close>; a wall is constructed from two equal endpoints.
\<close>

theorem invalid_configuration_accepted:
  "params (newSimulation emptyRoom
      \<lparr>tauOpt = Some 0, phiOpt = Some (- 1), dMaxOpt = Some 0, kOpt = None, dtOpt = Some (- 1),
       angularResolutionOpt = None\<rparr>)
     = \<lparr>tau = 0, phi = - 1, dMax = 0, kContact = 5000, dt = - 1, angularResolution = (1 * pi) / 180\<rparr>
   \<and> step (newSimulation emptyRoom
      \<lparr>tauOpt = None, phiOpt = None, dMaxOpt = None, kOpt = None, dtOpt = Some (- 1),
       angularResolutionOpt = None\<rparr>)
     = Inr \<lparr>pedestrians = [], environment = emptyRoom,
            params = defaultParams\<lparr>dt := - 1\<rparr>, time = - 1, onStepCallbacks = []\<rparr>
   \<and> createWall \<lparr>vecx = 1, vecy = 2\<rparr> \<lparr>vecx = 1, vecy = 2\<rparr>
     = \<lparr>wstart = \<lparr>vecx = 1, vecy = 2\<rparr>, wend = \<lparr>vecx = 1, vecy = 2\<rparr>, wa = 0, wb = 0, wc = 0,
        normal = \<lparr>vecx = 0, vecy = 0\<rparr>\<rparr>"
  by (simp add: newSimulation_def mergeParams_def defaultParams_def step_def
      computeContactForces_def createWall_def lineFromPoints_def eps10_def)

text \<open>
  C7 (as amended). Construction validates nothing: the constructor of \<open>Simulation\<close>
  stores every given value of \<open>tau\<close>, \<open>phi\<close>, \<open>dMax\<close> and \<open>dt\<close> as it is, whatever
  its sign, and \<open>createWall\<close> on two equal endpoints returns a wall whose line
  coefficients and normal are zero.
\<close>

theorem construction_without_validation:
  "tau (params (newSimulation env (q\<lparr>tauOpt := Some v\<rparr>))) = v
   \<and> phi (params (newSimulation env (q\<lparr>phiOpt := Some v\<rparr>))) = v
   \<and> dMax (params (newSimulation env (q\<lparr>dMaxOpt := Some v\<rparr>))) = v
   \<and> dt (params (newSimulation env (q\<lparr>dtOpt := Some v\<rparr>))) = v
   \<and> createWall s s = \<lparr>wstart = s, wend = s, wa = 0, wb = 0, wc = 0,
                         normal = \<lparr>vecx = 0, vecy = 0\<rparr>\<rparr>"
  by (simp add: newSimulation_def mergeParams_def createWall_def lineFromPoints_def eps10_def)

section \<open>Speed selection\<close>

text \<open>
  C8. Speed selection returns \<open>min(desiredSpeed, f / tau)\<close>: for all non-negative
  inputs \<open>selectSpeed\<close> is the desired speed when the obstacle distance divided by
  \<open>tau\<close> is at least the desired speed, and that quotient otherwise (for \<open>tau = 0\<close>
  the quotient is \<open>Infinity\<close> or NaN, as the program computes it); for a positive
  \<open>tau\<close> it is the minimum of the two real numbers; for desired speed 1.3, distance
  0.4 and \<open>tau\<close> = 0.5 it is 0.8.
\<close>

theorem selectSpeed_min:
  assumes "0 \<le> ds" "0 \<le> d" "0 \<le> t"
  shows "selectSpeed ds d t = (if js_ge (js_div d t) ds then Fin ds else js_div d t)
       \<and> (0 < t \<longrightarrow> selectSpeed ds d t = Fin (min ds (d / t)))
       \<and> selectSpeed (13/10) (4/10) (5/10) = Fin (8/10)"
  by (auto simp: selectSpeed_def js_div_def min_def)

theorem selectSpeed_min_witness:
  "(0::real) \<le> 13/10 \<and> (0::real) \<le> 4/10 \<and> (0::real) \<le> 5/10 \<and> (0::real) < 5/10
   \<and> selectSpeed (13/10) (4/10) (5/10) = Fin (min (13/10) ((4/10) / (5/10)))"
proof -
  have h: "(0::real) \<le> 13/10" "(0::real) \<le> 4/10" "(0::real) \<le> 5/10" by simp_all
  have "(0::real) < 5/10 \<longrightarrow>
      selectSpeed (13/10) (4/10) (5/10) = Fin (min (13/10) ((4/10) / (5/10)))"
    using selectSpeed_min [OF h] by blast
  then show ?thesis by simp
qed

section \<open>Pedestrian creation\<close>

text \<open>
  C9 as stated fails: \<open>createPedestrian\<close> called with the explicit desired speed
  \<open>0.1\<close> returns a pedestrian with desired speed \<open>0.1\<close>.
\<close>

theorem explicit_speed_not_clamped:
  "createPedestrian
     \<lparr>optPosition = origin, optDestination = origin, optMass = Some 80,
      optDesiredSpeed = Some (1 / 10), optVelocity = None, optDirection = None\<rparr> (genFrom [])
   = Inr (\<lparr>pid = 0, position = origin, velocity = vec2_zero, mass = 80, radius = 1 / 4,
           desiredSpeed = 1 / 10, destination = origin, direction = 1, active = True\<rparr>,
          (genFrom [])\<lparr>nextId := 1\<rparr>)"
  by (simp add: createPedestrian_def genFrom_def)

text \<open>
  C9 (as amended). A pedestrian returned by \<open>createPedestrian\<close> has a desired speed
  of at least \<open>0.5\<close> when \<open>desiredSpeed\<close> is omitted; an explicit \<open>desiredSpeed\<close> is
  stored unchanged.
\<close>

theorem createPedestrian_speed:
  assumes "createPedestrian options st = Inr (ped, st')"
  shows "case optDesiredSpeed options of
           None \<Rightarrow> 0.5 \<le> desiredSpeed ped
         | Some v \<Rightarrow> desiredSpeed ped = v"
  using assms
  by (auto simp: createPedestrian_def randomNormal_def Let_def
      split: option.splits prod.splits jsnum.splits elim: js_max.elims)

theorem createPedestrian_speed_witness:
  "createPedestrian
     \<lparr>optPosition = origin, optDestination = origin, optMass = Some 80,
      optDesiredSpeed = None, optVelocity = None, optDirection = None\<rparr> (genFrom [1 / 2, 1 / 4])
   = Inr (\<lparr>pid = 0, position = origin, velocity = vec2_zero, mass = 80, radius = 1 / 4,
           desiredSpeed = 13 / 10, destination = origin, direction = 1, active = True\<rparr>,
          \<lparr>nextId = 1, randomSource = fixedDraws [1 / 2, 1 / 4], randomPos = 2\<rparr>)
   \<and> (0.5 :: real) \<le> 13 / 10"
proof -
  from createPedestrian_speed [OF create_default_speed]
  have "(0.5 :: real) \<le> 13 / 10" by simp
  with create_default_speed show ?thesis by simp
qed

section \<open>Placement in an area\<close>

text \<open>
  C10 fails on the program where no uniform mass is given (as in the unidirectional,
  bidirectional, bottleneck and turning-corridor scenarios; the evacuation scenario gives
  a uniform mass of 60): the
  overlap test uses a mass drawn for the test, and \<open>createPedestrian\<close> then draws the
  mass again. On the draws \<open>overlapDraws\<close> the second pedestrian is tested with radius
  \<open>3/16\<close> and created with radius \<open>9/32\<close>, at distance \<open>9/20\<close> from the first: less
  than the sum of the two radii, \<open>15/32\<close>.
\<close>

theorem placed_pedestrians_overlap:
  "createPedestriansInArea 2 unitSquare toRightEdge (Some scenarioOptions) (genFrom overlapDraws)
     = Inr \<lparr>placed = [firstPlaced, secondPlaced], attempts = 2,
            gen = \<lparr>nextId = 2, randomSource = fixedDraws overlapDraws, randomPos = 12\<rparr>\<rparr>
   \<and> vec2_distance (position firstPlaced) (position secondPlaced) = 9 / 20
   \<and> radius firstPlaced + radius secondPlaced = 15 / 32
   \<and> vec2_distance (position firstPlaced) (position secondPlaced)
       < radius firstPlaced + radius secondPlaced"
proof -
  have r: "radius firstPlaced + radius secondPlaced = 15 / 32"
    by (simp add: firstPlaced_def secondPlaced_def)
  with placed_overlap_eval placed_distance show ?thesis by simp
qed

end
